theory Spec2Isabelle
  imports Complex_Main "HOL-Library.Log_Nat"
begin

section \<open>The financial ledger of \<open>login/financeiro.py\<close>\<close>

text \<open>
  The class \<open>SistemaFinanceiro\<close> keeps two lists of accounts (payable and receivable),
  derives a due status from the due date, and builds reports over them. The model below
  follows the Python text function by function. What the interpreter's library does
  (\<open>datetime\<close>, \<open>int\<close>, \<open>float\<close>, \<open>Decimal\<close>) is modelled from its CPython 3.11
  behaviour and kept in sections of its own. The clock (\<open>datetime.now()\<close>,
  \<open>time.strftime\<close>) is a parameter of every function that reads it; printing is left out.
\<close>

subsection \<open>Exceptions\<close>

datatype py_error = ValueError | OverflowError | KeyError

subsection \<open>Calendar dates (\<open>datetime.date\<close>)\<close>

datatype date = Date (year: int) (month: int) (day: int)

definition is_leap :: "int \<Rightarrow> bool" where
  "is_leap y = (y mod 4 = 0 \<and> (y mod 100 \<noteq> 0 \<or> y mod 400 = 0))"

definition days_in_month :: "int \<Rightarrow> int \<Rightarrow> int" where
  "days_in_month y m =
     (if m = 2 \<and> is_leap y then 29
      else if m = 2 then 28
      else if m = 4 \<or> m = 6 \<or> m = 9 \<or> m = 11 then 30
      else 31)"

definition days_before_year :: "int \<Rightarrow> int" where
  "days_before_year y = (y - 1) * 365 + (y - 1) div 4 - (y - 1) div 100 + (y - 1) div 400"

definition days_before_month_common :: "int \<Rightarrow> int" where
  "days_before_month_common m =
     (if m = 1 then 0 else if m = 2 then 31 else if m = 3 then 59 else if m = 4 then 90
      else if m = 5 then 120 else if m = 6 then 151 else if m = 7 then 181
      else if m = 8 then 212 else if m = 9 then 243 else if m = 10 then 273
      else if m = 11 then 304 else 334)"

definition days_before_month :: "int \<Rightarrow> int \<Rightarrow> int" where
  "days_before_month y m =
     days_before_month_common m + (if 2 < m \<and> is_leap y then 1 else 0)"

definition toordinal :: "date \<Rightarrow> int" where
  "toordinal d = days_before_year (year d) + days_before_month (year d) (month d) + day d"

text \<open>The range check of the \<open>date\<close> constructor: years 1 to 9999, a month of the year, a
  day of the month.\<close>

definition valid_date :: "date \<Rightarrow> bool" where
  "valid_date d =
     (1 \<le> year d \<and> year d \<le> 9999 \<and> 1 \<le> month d \<and> month d \<le> 12 \<and>
      1 \<le> day d \<and> day d \<le> days_in_month (year d) (month d))"

definition new_date :: "int \<Rightarrow> int \<Rightarrow> int \<Rightarrow> py_error + date" where
  "new_date y m d = (if valid_date (Date y m d) then Inr (Date y m d) else Inl ValueError)"

text \<open>Dates compare as the tuples (year, month, day).\<close>

definition date_lt :: "date \<Rightarrow> date \<Rightarrow> bool" where
  "date_lt a b =
     (year a < year b \<or>
      (year a = year b \<and> (month a < month b \<or> (month a = month b \<and> day a < day b))))"

definition date_le :: "date \<Rightarrow> date \<Rightarrow> bool" where
  "date_le a b = (date_lt a b \<or> a = b)"

text \<open>\<open>(a - b).days\<close> for two dates.\<close>

definition days_between :: "date \<Rightarrow> date \<Rightarrow> int" where
  "days_between a b = toordinal a - toordinal b"

text \<open>\<open>d - timedelta(days=1)\<close>: the day before, and OverflowError before 0001-01-01.\<close>

definition date_pred :: "date \<Rightarrow> py_error + date" where
  "date_pred d =
     (if 1 < day d then Inr (Date (year d) (month d) (day d - 1))
      else if 1 < month d then
        Inr (Date (year d) (month d - 1) (days_in_month (year d) (month d - 1)))
      else if 1 < year d then Inr (Date (year d - 1) 12 31)
      else Inl OverflowError)"

subsection \<open>\<open>datetime.strptime(s, "%Y-%m-%d")\<close>\<close>

text \<open>
  CPython compiles the format to the regular expression
  \<^verbatim>\<open>(?P<Y>\d\d\d\d)-(?P<m>1[0-2]|0[1-9]|[1-9])-(?P<d>3[0-1]|[1-2]\d|0[1-9]|[1-9]| [1-9])\<close>,
  matches it at the start of the string, raises ValueError when it does not match or when
  text is left over, and then builds the date, which raises ValueError for year 0 and for a
  day the month does not have. A \<open>char\<close> is one of the first 256 code points, where the only
  decimal digits are \<open>0\<close> to \<open>9\<close>.
\<close>

definition digit_of :: "char \<Rightarrow> int option" where
  "digit_of c =
     (let n = (of_char c :: nat) in if 48 \<le> n \<and> n \<le> 57 then Some (int n - 48) else None)"

text \<open>The alternatives of a group, in the order the matcher tries them: each gives the
  number read and the text after it.\<close>

fun alts_m :: "string \<Rightarrow> (int \<times> string) list" where
  "alts_m (c1 # c2 # r) =
     (if c1 = CHR ''1'' \<and> digit_of c2 \<in> {Some 0, Some 1, Some 2}
        then [(10 + the (digit_of c2), r)] else []) @
     (if c1 = CHR ''0'' \<and> digit_of c2 \<noteq> None \<and> digit_of c2 \<noteq> Some 0
        then [(the (digit_of c2), r)] else []) @
     (if digit_of c1 \<noteq> None \<and> digit_of c1 \<noteq> Some 0
        then [(the (digit_of c1), c2 # r)] else [])"
| "alts_m [c1] =
     (if digit_of c1 \<noteq> None \<and> digit_of c1 \<noteq> Some 0 then [(the (digit_of c1), [])] else [])"
| "alts_m [] = []"

fun alts_d :: "string \<Rightarrow> (int \<times> string) list" where
  "alts_d (c1 # c2 # r) =
     (if c1 = CHR ''3'' \<and> digit_of c2 \<in> {Some 0, Some 1}
        then [(30 + the (digit_of c2), r)] else []) @
     (if (c1 = CHR ''1'' \<or> c1 = CHR ''2'') \<and> digit_of c2 \<noteq> None
        then [(10 * the (digit_of c1) + the (digit_of c2), r)] else []) @
     (if c1 = CHR ''0'' \<and> digit_of c2 \<noteq> None \<and> digit_of c2 \<noteq> Some 0
        then [(the (digit_of c2), r)] else []) @
     (if digit_of c1 \<noteq> None \<and> digit_of c1 \<noteq> Some 0
        then [(the (digit_of c1), c2 # r)] else []) @
     (if c1 = CHR '' '' \<and> digit_of c2 \<noteq> None \<and> digit_of c2 \<noteq> Some 0
        then [(the (digit_of c2), r)] else [])"
| "alts_d [c1] =
     (if digit_of c1 \<noteq> None \<and> digit_of c1 \<noteq> Some 0 then [(the (digit_of c1), [])] else [])"
| "alts_d [] = []"

text \<open>The first way to match month, hyphen and day, with what is left of the string.\<close>

definition match_md :: "string \<Rightarrow> (int \<times> int \<times> string) option" where
  "match_md s =
     (case [(m, d, r3). (m, r2) \<leftarrow> alts_m s, r2 \<noteq> [], hd r2 = CHR ''-'',
                        (d, r3) \<leftarrow> alts_d (tl r2)] of
        [] \<Rightarrow> None
      | x # _ \<Rightarrow> Some x)"

definition strptime_ymd :: "string \<Rightarrow> py_error + date" where
  "strptime_ymd s =
     (case s of
        y1 # y2 # y3 # y4 # c # r \<Rightarrow>
          (case (digit_of y1, digit_of y2, digit_of y3, digit_of y4) of
             (Some a, Some b, Some c', Some d) \<Rightarrow>
               (if c = CHR ''-'' then
                  (case match_md r of
                     Some (m, dd, left) \<Rightarrow>
                       (if left = [] then new_date (1000 * a + 100 * b + 10 * c' + d) m dd
                        else Inl ValueError)
                   | None \<Rightarrow> Inl ValueError)
                else Inl ValueError)
           | _ \<Rightarrow> Inl ValueError)
      | _ \<Rightarrow> Inl ValueError)"

subsection \<open>Validation and the due status\<close>

text \<open>\<open>validar_data\<close>: the try around \<open>strptime\<close> catches ValueError, the only
  exception \<open>strptime\<close> raises on a string.\<close>

definition validar_data :: "string \<Rightarrow> bool" where
  "validar_data data_str = (case strptime_ymd data_str of Inr _ \<Rightarrow> True | Inl _ \<Rightarrow> False)"

text \<open>The body of the try in \<open>calcular_status_vencimento\<close>; \<open>hoje\<close> is
  \<open>datetime.now().date()\<close>.\<close>

definition status_vencimento_try :: "date \<Rightarrow> string \<Rightarrow> py_error + string" where
  "status_vencimento_try hoje data_vencimento =
     (case strptime_ymd data_vencimento of
        Inl e \<Rightarrow> Inl e
      | Inr data_venc \<Rightarrow>
          Inr (if date_lt data_venc hoje then ''atrasado''
               else if data_venc = hoje then ''vencendo_hoje''
               else if days_between data_venc hoje \<le> 7 then ''vencendo_em_breve''
               else ''no_prazo''))"

text \<open>The bare \<open>except\<close> turns every exception into \<open>data_invalida\<close>.\<close>

definition calcular_status_vencimento :: "date \<Rightarrow> string \<Rightarrow> string" where
  "calcular_status_vencimento hoje data_vencimento =
     (case status_vencimento_try hoje data_vencimento of
        Inr s \<Rightarrow> s
      | Inl _ \<Rightarrow> ''data_invalida'')"

subsection \<open>\<open>int(s)\<close>, \<open>f"{n:03d}"\<close> and \<open>startswith\<close>\<close>

text \<open>
  \<open>int\<close> of a string strips white space at both ends, reads an optional sign and then
  decimal digits, with single underscores allowed between digits; anything else raises
  ValueError. Among the first 256 code points the white space it strips is 9 to 13, 32, 133
  and 160.
\<close>

definition is_space :: "char \<Rightarrow> bool" where
  "is_space c = ((of_char c :: nat) \<in> {9, 10, 11, 12, 13, 32, 133, 160})"

fun int_digits :: "int \<Rightarrow> string \<Rightarrow> int option" where
  "int_digits acc [] = Some acc"
| "int_digits acc (c # r) =
     (case digit_of c of
        Some d \<Rightarrow> int_digits (10 * acc + d) r
      | None \<Rightarrow>
          (if c = CHR ''_'' then
             (case r of
                [] \<Rightarrow> None
              | c2 # r2 \<Rightarrow>
                  (case digit_of c2 of
                     Some d \<Rightarrow> int_digits (10 * acc + d) r2
                   | None \<Rightarrow> None))
           else None))"

definition int_unsigned :: "string \<Rightarrow> int option" where
  "int_unsigned s =
     (case s of
        [] \<Rightarrow> None
      | c # r \<Rightarrow> (case digit_of c of Some d \<Rightarrow> int_digits d r | None \<Rightarrow> None))"

definition py_int :: "string \<Rightarrow> py_error + int" where
  "py_int s =
     (let t = rev (dropWhile is_space (rev (dropWhile is_space s)));
          r = (case t of
                 [] \<Rightarrow> None
               | c # u \<Rightarrow>
                   if c = CHR ''-'' then map_option uminus (int_unsigned u)
                   else if c = CHR ''+'' then int_unsigned u
                   else int_unsigned t)
      in case r of Some n \<Rightarrow> Inr n | None \<Rightarrow> Inl ValueError)"

definition digit_char :: "nat \<Rightarrow> char" where
  "digit_char d = char_of (48 + d)"

function str_nat :: "nat \<Rightarrow> string" where
  "str_nat n = (if n < 10 then [digit_char n] else str_nat (n div 10) @ [digit_char (n mod 10)])"
  by pat_completeness auto
termination
  by (relation "measure id") auto

text \<open>The format \<open>03d\<close>: at least three characters, the sign included, padded with zeros
  after the sign.\<close>

definition format_03d :: "int \<Rightarrow> string" where
  "format_03d n =
     (if n < 0 then
        CHR ''-'' # replicate (2 - length (str_nat (nat (- n)))) CHR ''0'' @ str_nat (nat (- n))
      else replicate (3 - length (str_nat (nat n))) CHR ''0'' @ str_nat (nat n))"

definition startswith :: "string \<Rightarrow> string \<Rightarrow> bool" where
  "startswith s p = (take (length p) s = p)"

subsection \<open>Numbers: \<open>float\<close> and \<open>Decimal\<close>\<close>

text \<open>
  A finite \<open>float\<close> (IEEE binary64) is modelled by its exact value, a rational number.
  An operation computes the exact result and rounds it to the nearest number with 53
  significant bits, ties to the even significand; below \<open>2^-1022\<close> the spacing stays
  \<open>2^-1074\<close>. Infinities and NaN are not modelled, so the model holds while values stay
  below \<open>2^1024\<close>. A \<open>Decimal\<close> is modelled by its exact value as well; the default
  context rounds the result of an operation to 28 significant decimal digits, ties to
  even.
\<close>

definition rat_pow :: "int \<Rightarrow> int \<Rightarrow> rat" where
  "rat_pow b e = (if 0 \<le> e then of_int b ^ nat e else 1 / of_int b ^ nat (- e))"

text \<open>The number of digits of a positive integer in base \<open>b\<close>.\<close>

function num_digits :: "int \<Rightarrow> int \<Rightarrow> int" where
  "num_digits b x = (if 0 < x \<and> 1 < b then num_digits b (x div b) + 1 else 0)"
  by pat_completeness auto
termination
  by (relation "measure (\<lambda>(b, x). nat x)") (auto simp: int_div_less_self)

text \<open>The integer \<open>e\<close> with \<open>b^e \<le> x < b^(e+1)\<close>, for \<open>x > 0\<close>.\<close>

definition floor_log :: "int \<Rightarrow> rat \<Rightarrow> int" where
  "floor_log b x =
     (let (p, q) = quotient_of x;
          d = num_digits b p - num_digits b q
      in if rat_pow b d \<le> x then d else d - 1)"

definition round_half_even :: "rat \<Rightarrow> int" where
  "round_half_even r =
     (let f = \<lfloor>r\<rfloor>; d = r - of_int f
      in if d < 1 / 2 then f else if 1 / 2 < d then f + 1 else if even f then f else f + 1)"

text \<open>Rounding to \<open>n\<close> significant digits in base \<open>b\<close>, with no unit below \<open>b^emin\<close>.\<close>

definition round_sig :: "int \<Rightarrow> int \<Rightarrow> int \<Rightarrow> rat \<Rightarrow> rat" where
  "round_sig b n emin x =
     (if x = 0 then 0
      else let u = rat_pow b (max (floor_log b \<bar>x\<bar> - (n - 1)) emin)
           in of_int (round_half_even (x / u)) * u)"

definition f64_round :: "rat \<Rightarrow> rat" where
  "f64_round x = round_sig 2 53 (- 1074) x"

definition dec_round :: "rat \<Rightarrow> rat" where
  "dec_round x = round_sig 10 28 (- 1000026) x"

text \<open>\<open>a + b\<close> and \<open>a - b\<close> on floats.\<close>

definition float_add :: "rat \<Rightarrow> rat \<Rightarrow> rat" where
  "float_add a b = f64_round (a + b)"

definition float_sub :: "rat \<Rightarrow> rat \<Rightarrow> rat" where
  "float_sub a b = f64_round (a - b)"

text \<open>The builtin \<open>sum\<close> over floats: it starts from the integer 0 and adds from left to
  right. (From CPython 3.12 on it also carries a correction term; the sums evaluated in
  this theory are the same floats either way.)\<close>

definition py_sum :: "rat list \<Rightarrow> rat" where
  "py_sum xs = foldl float_add 0 xs"

text \<open>\<open>a + b\<close> and \<open>a - b\<close> on Decimals, and \<open>float(d)\<close> of a Decimal.\<close>

definition dec_add :: "rat \<Rightarrow> rat \<Rightarrow> rat" where
  "dec_add a b = dec_round (a + b)"

definition dec_sub :: "rat \<Rightarrow> rat \<Rightarrow> rat" where
  "dec_sub a b = dec_round (a - b)"

definition float_of_decimal :: "rat \<Rightarrow> rat" where
  "float_of_decimal d = f64_round d"

text \<open>
  \<open>Decimal(str(x))\<close> for a float \<open>x\<close>: \<open>str\<close> writes the shortest decimal numeral that
  reads back as \<open>x\<close> (the closest to \<open>x\<close> when there are several), and \<open>Decimal\<close> reads
  that numeral exactly. \<open>repr_try n x\<close> looks for such a numeral with \<open>n\<close> significant
  digits, for \<open>x > 0\<close>; 17 digits always suffice.
\<close>

definition repr_try :: "nat \<Rightarrow> rat \<Rightarrow> rat option" where
  "repr_try n x =
     (let u = rat_pow 10 (floor_log 10 x - (int n - 1));
          lo = of_int \<lfloor>x / u\<rfloor> * u;
          hi = lo + u;
          oklo = (f64_round lo = x);
          okhi = (f64_round hi = x)
      in if oklo \<and> okhi then Some (if x - lo \<le> hi - x then lo else hi)
         else if oklo then Some lo
         else if okhi then Some hi
         else None)"

fun repr_search :: "nat \<Rightarrow> nat \<Rightarrow> rat \<Rightarrow> rat" where
  "repr_search 0 n x = round_sig 10 17 (- 1000026) x"
| "repr_search (Suc k) n x =
     (case repr_try n x of Some d \<Rightarrow> d | None \<Rightarrow> repr_search k (Suc n) x)"

definition decimal_of_str :: "rat \<Rightarrow> rat" where
  "decimal_of_str x =
     (if x = 0 then 0
      else if x < 0 then - repr_search 16 1 (- x)
      else repr_search 16 1 x)"

subsection \<open>The accounts and the store\<close>

text \<open>
  An account is a dictionary with a fixed set of keys; payable and receivable accounts
  share most of them. The class holds the two lists and the category dictionary in
  memory and rewrites a JSON file from a list after each change. In the model the fields
  \<open>arquivo_contas_pagar\<close> and \<open>arquivo_contas_receber\<close> hold what the files of those
  names contain. A dictionary is a list of pairs in insertion order.
\<close>

record conta =
  id_conta :: string
  descricao :: string
  categoria :: string
  valor :: rat
  data_vencimento :: string
  status :: string
  status_vencimento :: string
  observacoes :: string
  data_cadastro :: string
  usuario_cadastro :: string
  ativo :: bool

record conta_pagar = conta +
  fornecedor :: string
  data_pagamento :: "string option"
  usuario_pagamento :: "string option"

record conta_receber = conta +
  cliente :: string
  data_recebimento :: "string option"
  usuario_recebimento :: "string option"

text \<open>A category has a display name and a kind; its display tag, an emoji, is left
  out.\<close>

record categoria_info =
  nome :: string
  tipo :: string

type_synonym 'v dict = "(string \<times> 'v) list"

record sistema =
  contas_pagar :: "conta_pagar list"
  contas_receber :: "conta_receber list"
  categorias :: "categoria_info dict dict"
  arquivo_contas_pagar :: "conta_pagar list"
  arquivo_contas_receber :: "conta_receber list"

definition salvar_contas_pagar :: "sistema \<Rightarrow> sistema" where
  "salvar_contas_pagar st = st\<lparr>arquivo_contas_pagar := contas_pagar st\<rparr>"

definition salvar_contas_receber :: "sistema \<Rightarrow> sistema" where
  "salvar_contas_receber st = st\<lparr>arquivo_contas_receber := contas_receber st\<rparr>"

fun dict_set :: "string \<Rightarrow> 'v \<Rightarrow> 'v dict \<Rightarrow> 'v dict" where
  "dict_set k v [] = [(k, v)]"
| "dict_set k v ((k', v') # d) = (if k' = k then (k', v) # d else (k', v') # dict_set k v d)"

text \<open>The truth value of an optional string argument: \<open>None\<close> and the empty string are
  false.\<close>

definition truthy :: "string option \<Rightarrow> bool" where
  "truthy s = (s \<noteq> None \<and> s \<noteq> Some [])"

text \<open>\<open>a < b\<close> on strings: by code points, a proper prefix first.\<close>

fun py_str_lt :: "string \<Rightarrow> string \<Rightarrow> bool" where
  "py_str_lt [] [] = False"
| "py_str_lt [] (y # ys) = True"
| "py_str_lt (x # xs) [] = False"
| "py_str_lt (x # xs) (y # ys) =
     (if x = y then py_str_lt xs ys else (of_char x :: nat) < of_char y)"

subsection \<open>\<open>gerar_id_conta\<close>\<close>

text \<open>The loop that collects the numbers of the ids with the prefix; an id whose rest
  is not a number is skipped.\<close>

fun numeros_ids :: "string \<Rightarrow> string list \<Rightarrow> int list" where
  "numeros_ids prefixo [] = []"
| "numeros_ids prefixo (i # ids) =
     (if startswith i prefixo then
        (case py_int (drop 2 i) of
           Inr numero \<Rightarrow> numero # numeros_ids prefixo ids
         | Inl _ \<Rightarrow> numeros_ids prefixo ids)
      else numeros_ids prefixo ids)"

definition proximo_id :: "string \<Rightarrow> string list \<Rightarrow> string" where
  "proximo_id prefixo ids =
     (if ids = [] then prefixo @ ''001''
      else (case numeros_ids prefixo ids of
              [] \<Rightarrow> prefixo @ format_03d 1
            | n # ns \<Rightarrow> prefixo @ format_03d (fold max ns n + 1)))"

definition gerar_id_conta :: "sistema \<Rightarrow> string \<Rightarrow> string" where
  "gerar_id_conta st tp =
     (if tp = ''pagar'' then proximo_id ''CP'' (map id_conta (contas_pagar st))
      else proximo_id ''CR'' (map id_conta (contas_receber st)))"

subsection \<open>Registration\<close>

text \<open>
  \<open>hoje\<close> and \<open>agora\<close> are the clock: today's date and the time stamp
  \<open>time.strftime("%Y-%m-%d %H:%M:%S")\<close>. The result is the new id, or \<open>None\<close> when the
  input is refused; \<open>self.categorias["contas_pagar"]\<close> raises KeyError when the category
  dictionary has no such key.
\<close>

definition cadastrar_conta_pagar ::
  "date \<Rightarrow> string \<Rightarrow> sistema \<Rightarrow> string \<Rightarrow> string \<Rightarrow> rat \<Rightarrow> string \<Rightarrow> string \<Rightarrow> string \<Rightarrow> string
     \<Rightarrow> py_error + (string option \<times> sistema)" where
  "cadastrar_conta_pagar hoje agora st desc cat val venc forn obs usr =
     (if desc = [] \<or> cat = [] \<or> val \<le> 0 then Inr (None, st)
      else case map_of (categorias st) ''contas_pagar'' of
        None \<Rightarrow> Inl KeyError
      | Some cats \<Rightarrow>
          if map_of cats cat = None then Inr (None, st)
          else if \<not> validar_data venc then Inr (None, st)
          else
            let conta_id = gerar_id_conta st ''pagar'';
                conta = \<lparr>id_conta = conta_id, descricao = desc, categoria = cat, valor = val,
                         data_vencimento = venc, status = ''pendente'',
                         status_vencimento = calcular_status_vencimento hoje venc,
                         observacoes = obs, data_cadastro = agora, usuario_cadastro = usr,
                         ativo = True, fornecedor = forn, data_pagamento = None,
                         usuario_pagamento = None\<rparr>
            in Inr (Some conta_id,
                    salvar_contas_pagar (st\<lparr>contas_pagar := contas_pagar st @ [conta]\<rparr>)))"

definition cadastrar_conta_receber ::
  "date \<Rightarrow> string \<Rightarrow> sistema \<Rightarrow> string \<Rightarrow> string \<Rightarrow> string \<Rightarrow> rat \<Rightarrow> string \<Rightarrow> string \<Rightarrow> string
     \<Rightarrow> py_error + (string option \<times> sistema)" where
  "cadastrar_conta_receber hoje agora st cli desc cat val venc obs usr =
     (if cli = [] \<or> desc = [] \<or> cat = [] \<or> val \<le> 0 then Inr (None, st)
      else case map_of (categorias st) ''contas_receber'' of
        None \<Rightarrow> Inl KeyError
      | Some cats \<Rightarrow>
          if map_of cats cat = None then Inr (None, st)
          else if \<not> validar_data venc then Inr (None, st)
          else
            let conta_id = gerar_id_conta st ''receber'';
                conta = \<lparr>id_conta = conta_id, descricao = desc, categoria = cat, valor = val,
                         data_vencimento = venc, status = ''pendente'',
                         status_vencimento = calcular_status_vencimento hoje venc,
                         observacoes = obs, data_cadastro = agora, usuario_cadastro = usr,
                         ativo = True, cliente = cli, data_recebimento = None,
                         usuario_recebimento = None\<rparr>
            in Inr (Some conta_id,
                    salvar_contas_receber (st\<lparr>contas_receber := contas_receber st @ [conta]\<rparr>)))"

subsection \<open>Payment, receipt and soft deletion\<close>

text \<open>
  Each of these loops stops at the first account with the given id that is active. The
  result of a loop is the answer and the list after it. \<open>hoje_str\<close> is
  \<open>time.strftime("%Y-%m-%d")\<close>, the default settlement date.
\<close>

fun pagar_loop :: "string \<Rightarrow> string option \<Rightarrow> string \<Rightarrow> string \<Rightarrow> conta_pagar list
     \<Rightarrow> bool \<times> conta_pagar list" where
  "pagar_loop conta_id dp usr hoje_str [] = (False, [])"
| "pagar_loop conta_id dp usr hoje_str (conta # contas) =
     (if id_conta conta = conta_id \<and> ativo conta then
        (if status conta = ''pago'' then (False, conta # contas)
         else
           let dp' = (if truthy dp then the dp else hoje_str)
           in if \<not> validar_data dp' then (False, conta # contas)
              else (True,
                    conta\<lparr>status := ''pago'', data_pagamento := Some dp',
                          usuario_pagamento := Some usr, status_vencimento := ''pago''\<rparr>
                    # contas))
      else (case pagar_loop conta_id dp usr hoje_str contas of
              (b, contas') \<Rightarrow> (b, conta # contas')))"

definition registrar_pagamento ::
  "sistema \<Rightarrow> string \<Rightarrow> string option \<Rightarrow> string \<Rightarrow> string \<Rightarrow> bool \<times> sistema" where
  "registrar_pagamento st conta_id dp usr hoje_str =
     (case pagar_loop conta_id dp usr hoje_str (contas_pagar st) of
        (True, contas') \<Rightarrow> (True, salvar_contas_pagar (st\<lparr>contas_pagar := contas'\<rparr>))
      | (False, contas') \<Rightarrow> (False, st\<lparr>contas_pagar := contas'\<rparr>))"

fun receber_loop :: "string \<Rightarrow> string option \<Rightarrow> string \<Rightarrow> string \<Rightarrow> conta_receber list
     \<Rightarrow> bool \<times> conta_receber list" where
  "receber_loop conta_id dr usr hoje_str [] = (False, [])"
| "receber_loop conta_id dr usr hoje_str (conta # contas) =
     (if id_conta conta = conta_id \<and> ativo conta then
        (if status conta = ''recebido'' then (False, conta # contas)
         else
           let dr' = (if truthy dr then the dr else hoje_str)
           in if \<not> validar_data dr' then (False, conta # contas)
              else (True,
                    conta\<lparr>status := ''recebido'', data_recebimento := Some dr',
                          usuario_recebimento := Some usr, status_vencimento := ''recebido''\<rparr>
                    # contas))
      else (case receber_loop conta_id dr usr hoje_str contas of
              (b, contas') \<Rightarrow> (b, conta # contas')))"

definition registrar_recebimento ::
  "sistema \<Rightarrow> string \<Rightarrow> string option \<Rightarrow> string \<Rightarrow> string \<Rightarrow> bool \<times> sistema" where
  "registrar_recebimento st conta_id dr usr hoje_str =
     (case receber_loop conta_id dr usr hoje_str (contas_receber st) of
        (True, contas') \<Rightarrow> (True, salvar_contas_receber (st\<lparr>contas_receber := contas'\<rparr>))
      | (False, contas') \<Rightarrow> (False, st\<lparr>contas_receber := contas'\<rparr>))"

fun excluir_loop :: "string \<Rightarrow> ('a conta_scheme) list \<Rightarrow> bool \<times> ('a conta_scheme) list" where
  "excluir_loop conta_id [] = (False, [])"
| "excluir_loop conta_id (conta # contas) =
     (if id_conta conta = conta_id \<and> ativo conta then (True, conta\<lparr>ativo := False\<rparr> # contas)
      else (case excluir_loop conta_id contas of (b, contas') \<Rightarrow> (b, conta # contas')))"

definition excluir_conta_pagar :: "sistema \<Rightarrow> string \<Rightarrow> string \<Rightarrow> bool \<times> sistema" where
  "excluir_conta_pagar st conta_id usr =
     (case excluir_loop conta_id (contas_pagar st) of
        (True, contas') \<Rightarrow> (True, salvar_contas_pagar (st\<lparr>contas_pagar := contas'\<rparr>))
      | (False, contas') \<Rightarrow> (False, st\<lparr>contas_pagar := contas'\<rparr>))"

definition excluir_conta_receber :: "sistema \<Rightarrow> string \<Rightarrow> string \<Rightarrow> bool \<times> sistema" where
  "excluir_conta_receber st conta_id usr =
     (case excluir_loop conta_id (contas_receber st) of
        (True, contas') \<Rightarrow> (True, salvar_contas_receber (st\<lparr>contas_receber := contas'\<rparr>))
      | (False, contas') \<Rightarrow> (False, st\<lparr>contas_receber := contas'\<rparr>))"

subsection \<open>Listing and search\<close>

text \<open>
  The listing loop skips an inactive account, writes the due status of today into every
  active one, and keeps those that pass the two optional filters; the list is then saved
  and the accounts kept are returned, sorted by the due date string with a stable sort.
\<close>

fun listar_loop :: "date \<Rightarrow> string option \<Rightarrow> string option \<Rightarrow> ('a conta_scheme) list
     \<Rightarrow> ('a conta_scheme) list \<times> ('a conta_scheme) list" where
  "listar_loop hoje sf cf [] = ([], [])"
| "listar_loop hoje sf cf (conta # contas) =
     (case listar_loop hoje sf cf contas of
        (contas', filtradas) \<Rightarrow>
          if \<not> ativo conta then (conta # contas', filtradas)
          else
            let conta' = conta\<lparr>status_vencimento :=
                                 calcular_status_vencimento hoje (data_vencimento conta)\<rparr>
            in if truthy sf \<and> status conta' \<noteq> the sf then (conta' # contas', filtradas)
               else if truthy cf \<and> categoria conta' \<noteq> the cf then (conta' # contas', filtradas)
               else (conta' # contas', conta' # filtradas))"

fun inserir_por_data :: "'a conta_scheme \<Rightarrow> ('a conta_scheme) list \<Rightarrow> ('a conta_scheme) list" where
  "inserir_por_data x [] = [x]"
| "inserir_por_data x (y # ys) =
     (if py_str_lt (data_vencimento y) (data_vencimento x) then y # inserir_por_data x ys
      else x # y # ys)"

definition ordenar_por_data :: "('a conta_scheme) list \<Rightarrow> ('a conta_scheme) list" where
  "ordenar_por_data xs = foldr inserir_por_data xs []"

definition listar_contas_pagar ::
  "date \<Rightarrow> sistema \<Rightarrow> string option \<Rightarrow> string option \<Rightarrow> conta_pagar list \<times> sistema" where
  "listar_contas_pagar hoje st sf cf =
     (case listar_loop hoje sf cf (contas_pagar st) of
        (contas', filtradas) \<Rightarrow>
          (ordenar_por_data filtradas, salvar_contas_pagar (st\<lparr>contas_pagar := contas'\<rparr>)))"

definition listar_contas_receber ::
  "date \<Rightarrow> sistema \<Rightarrow> string option \<Rightarrow> string option \<Rightarrow> conta_receber list \<times> sistema" where
  "listar_contas_receber hoje st sf cf =
     (case listar_loop hoje sf cf (contas_receber st) of
        (contas', filtradas) \<Rightarrow>
          (ordenar_por_data filtradas, salvar_contas_receber (st\<lparr>contas_receber := contas'\<rparr>)))"

text \<open>\<open>s.lower()\<close> on the first 256 code points, and \<open>a in b\<close> on strings.\<close>

definition lower_char :: "char \<Rightarrow> char" where
  "lower_char c =
     (let n = (of_char c :: nat)
      in if (65 \<le> n \<and> n \<le> 90) \<or> (192 \<le> n \<and> n \<le> 214) \<or> (216 \<le> n \<and> n \<le> 222)
         then char_of (n + 32) else c)"

definition lower :: "string \<Rightarrow> string" where
  "lower s = map lower_char s"

fun contem :: "string \<Rightarrow> string \<Rightarrow> bool" where
  "contem [] a = (a = [])"
| "contem (c # b) a = (take (length a) (c # b) = a \<or> contem b a)"

definition buscar_conta_pagar :: "sistema \<Rightarrow> string \<Rightarrow> conta_pagar list" where
  "buscar_conta_pagar st termo =
     filter (\<lambda>conta. \<not> (\<not> ativo conta) \<and>
               (contem (lower (id_conta conta)) (lower termo) \<or>
                contem (lower (descricao conta)) (lower termo) \<or>
                contem (lower (fornecedor conta)) (lower termo)))
       (contas_pagar st)"

definition buscar_conta_receber :: "sistema \<Rightarrow> string \<Rightarrow> conta_receber list" where
  "buscar_conta_receber st termo =
     filter (\<lambda>conta. \<not> (\<not> ativo conta) \<and>
               (contem (lower (id_conta conta)) (lower termo) \<or>
                contem (lower (cliente conta)) (lower termo) \<or>
                contem (lower (descricao conta)) (lower termo)))
       (contas_receber st)"

subsection \<open>\<open>relatorio_financeiro\<close>\<close>

text \<open>
  With a start or an end date the report first selects the active accounts whose due
  date, compared as a string, lies in the range; with neither it takes the two lists as
  they are. The sums are the builtin \<open>sum\<close> over the \<open>valor\<close> of the accounts, which are
  floats. The time stamp of the report is left out.
\<close>

definition no_periodo :: "string option \<Rightarrow> string option \<Rightarrow> 'a conta_scheme \<Rightarrow> bool" where
  "no_periodo di df conta =
     (ativo conta \<and>
      \<not> (truthy di \<and> py_str_lt (data_vencimento conta) (the di)) \<and>
      \<not> (truthy df \<and> py_str_lt (the df) (data_vencimento conta)))"

definition filtrar_periodo ::
  "string option \<Rightarrow> string option \<Rightarrow> ('a conta_scheme) list \<Rightarrow> ('a conta_scheme) list" where
  "filtrar_periodo di df contas =
     (if truthy di \<or> truthy df then filter (no_periodo di df) contas else contas)"

text \<open>The entry of a category: the keys \<open>total\<close>, \<open>pago\<close> or \<open>recebido\<close>, and
  \<open>pendente\<close>.\<close>

record subtotais =
  sub_total :: rat
  sub_quitado :: rat
  sub_pendente :: rat

text \<open>The loop over the accounts that fills the dictionary of a kind: \<open>quitado\<close> is the
  settled status of the kind (\<open>pago\<close> or \<open>recebido\<close>); every other status counts as pending.\<close>

fun por_categoria :: "string \<Rightarrow> ('a conta_scheme) list \<Rightarrow> subtotais dict \<Rightarrow> subtotais dict" where
  "por_categoria quitado [] d = d"
| "por_categoria quitado (conta # contas) d =
     (if ativo conta then
        let cat = categoria conta;
            s0 = (case map_of d cat of
                    None \<Rightarrow> \<lparr>sub_total = 0, sub_quitado = 0, sub_pendente = 0\<rparr>
                  | Some s \<Rightarrow> s);
            s1 = s0\<lparr>sub_total := float_add (sub_total s0) (valor conta)\<rparr>;
            s2 = (if status conta = quitado
                  then s1\<lparr>sub_quitado := float_add (sub_quitado s1) (valor conta)\<rparr>
                  else s1\<lparr>sub_pendente := float_add (sub_pendente s1) (valor conta)\<rparr>)
        in por_categoria quitado contas (dict_set cat s2 d)
      else por_categoria quitado contas d)"

text \<open>The dictionaries of the result: \<open>resumo\<close>; the counts \<open>contas_pagar\<close> and
  \<open>contas_receber\<close> with the keys \<open>total\<close>, \<open>pendentes\<close>, \<open>pagas\<close> or \<open>recebidas\<close>,
  and \<open>atrasadas\<close>; the two category dictionaries; and the overdue accounts.\<close>

record resumo =
  total_pagar :: rat
  total_receber :: rat
  total_pago :: rat
  total_recebido :: rat
  total_pagar_pendente :: rat
  total_receber_pendente :: rat
  total_pagar_atrasado :: rat
  total_receber_atrasado :: rat
  saldo :: rat
  saldo_futuro :: rat

record contagem =
  n_total :: nat
  n_pendentes :: nat
  n_quitadas :: nat
  n_atrasadas :: nat

record relatorio =
  rel_resumo :: resumo
  rel_contas_pagar :: contagem
  rel_contas_receber :: contagem
  categorias_pagar :: "subtotais dict"
  categorias_receber :: "subtotais dict"
  atrasadas_pagar :: "conta_pagar list"
  atrasadas_receber :: "conta_receber list"
  rel_data_inicio :: "string option"
  rel_data_fim :: "string option"

definition relatorio_financeiro :: "sistema \<Rightarrow> string option \<Rightarrow> string option \<Rightarrow> relatorio" where
  "relatorio_financeiro st di df =
     (let pf = filtrar_periodo di df (contas_pagar st);
          rf = filtrar_periodo di df (contas_receber st);
          t_pagar = py_sum (map valor (filter ativo pf));
          t_receber = py_sum (map valor (filter ativo rf));
          t_pago = py_sum (map valor (filter (\<lambda>c. ativo c \<and> status c = ''pago'') pf));
          t_recebido = py_sum (map valor (filter (\<lambda>c. ativo c \<and> status c = ''recebido'') rf));
          t_pagar_pend = py_sum (map valor (filter (\<lambda>c. ativo c \<and> status c = ''pendente'') pf));
          t_receber_pend =
            py_sum (map valor (filter (\<lambda>c. ativo c \<and> status c = ''pendente'') rf));
          p_atrasadas = filter (\<lambda>c. ativo c \<and> status_vencimento c = ''atrasado'') pf;
          r_atrasadas = filter (\<lambda>c. ativo c \<and> status_vencimento c = ''atrasado'') rf
      in \<lparr>rel_resumo =
            \<lparr>total_pagar = t_pagar, total_receber = t_receber, total_pago = t_pago,
             total_recebido = t_recebido, total_pagar_pendente = t_pagar_pend,
             total_receber_pendente = t_receber_pend,
             total_pagar_atrasado = py_sum (map valor p_atrasadas),
             total_receber_atrasado = py_sum (map valor r_atrasadas),
             saldo = float_sub t_recebido t_pago,
             saldo_futuro = float_sub t_receber t_pagar\<rparr>,
          rel_contas_pagar =
            \<lparr>n_total = length pf,
             n_pendentes = length (filter (\<lambda>c. ativo c \<and> status c = ''pendente'') pf),
             n_quitadas = length (filter (\<lambda>c. ativo c \<and> status c = ''pago'') pf),
             n_atrasadas = length p_atrasadas\<rparr>,
          rel_contas_receber =
            \<lparr>n_total = length rf,
             n_pendentes = length (filter (\<lambda>c. ativo c \<and> status c = ''pendente'') rf),
             n_quitadas = length (filter (\<lambda>c. ativo c \<and> status c = ''recebido'') rf),
             n_atrasadas = length r_atrasadas\<rparr>,
          categorias_pagar = por_categoria ''pago'' pf [],
          categorias_receber = por_categoria ''recebido'' rf [],
          atrasadas_pagar = p_atrasadas,
          atrasadas_receber = r_atrasadas,
          rel_data_inicio = di,
          rel_data_fim = df\<rparr>)"

subsection \<open>Cash flow\<close>

text \<open>
  The three cash-flow functions walk a list, keep the accounts settled in the period and
  add \<open>Decimal(str(conta["valor"]))\<close> to a Decimal total that starts at \<open>0.00\<close>; the
  results report the totals as \<open>float(total)\<close>. The formatted balance and the name of the
  month are left out.
\<close>

datatype erro = Data_invalida | Data_inicial_maior

fun acumular :: "('a conta_scheme \<Rightarrow> bool) \<Rightarrow> ('a conta_scheme) list
     \<Rightarrow> ('a conta_scheme) list \<times> rat \<Rightarrow> ('a conta_scheme) list \<times> rat" where
  "acumular sel [] acc = acc"
| "acumular sel (conta # contas) (ts, tot) =
     (if sel conta
      then acumular sel contas (ts @ [conta], dec_add tot (decimal_of_str (valor conta)))
      else acumular sel contas (ts, tot))"

text \<open>One side of a cash flow (the keys \<open>transacoes\<close>, \<open>total\<close>, \<open>quantidade\<close>) and
  the results: \<open>saldo_fluxo\<close> stands for the key \<open>saldo_dia\<close>, \<open>saldo_mes\<close> or
  \<open>saldo_periodo\<close>, and the bounds of the month are kept as dates.\<close>

record 'a lado =
  transacoes :: "'a list"
  total_lado :: rat
  quantidade :: nat

record fluxo =
  entradas :: "conta_receber lado"
  saidas :: "conta_pagar lado"
  saldo_fluxo :: rat


record fluxo_periodo = fluxo +
  periodo_inicio :: string
  periodo_fim :: string

record fluxo_mensal = fluxo +
  ano :: int
  mes :: int
  mes_inicio :: date
  mes_fim :: date
  entradas_por_categoria :: "rat dict"
  saidas_por_categoria :: "rat dict"


text \<open>The test of the monthly and of the range loop: active, settled, and the settlement
  date parses to a date in the closed range. A missing date or one that does not parse
  raises inside the try and the account is skipped.\<close>

definition liquidada_entre ::
  "date \<Rightarrow> date \<Rightarrow> string \<Rightarrow> ('a conta_scheme \<Rightarrow> string option) \<Rightarrow> 'a conta_scheme \<Rightarrow> bool" where
  "liquidada_entre ini fim quitado data_liq conta =
     (\<not> (\<not> ativo conta \<or> status conta \<noteq> quitado) \<and>
      (case data_liq conta of
         None \<Rightarrow> False
       | Some s \<Rightarrow>
           (case strptime_ymd s of
              Inl _ \<Rightarrow> False
            | Inr d \<Rightarrow> date_le ini d \<and> date_le d fim)))"

fun categorias_fluxo :: "('a conta_scheme) list \<Rightarrow> rat dict \<Rightarrow> rat dict" where
  "categorias_fluxo [] d = d"
| "categorias_fluxo (conta # contas) d =
     (let cat = categoria conta;
          v0 = (case map_of d cat of None \<Rightarrow> 0 | Some v \<Rightarrow> v)
      in categorias_fluxo contas (dict_set cat (dec_add v0 (decimal_of_str (valor conta))) d))"

text \<open>The last day of the month: the first day of the next month minus one day.\<close>

definition fim_do_mes :: "int \<Rightarrow> int \<Rightarrow> py_error + date" where
  "fim_do_mes a m =
     (case (if m = 12 then new_date (a + 1) 1 1 else new_date a (m + 1) 1) of
        Inl e \<Rightarrow> Inl e
      | Inr d \<Rightarrow> date_pred d)"

definition fluxo_caixa_mensal ::
  "sistema \<Rightarrow> int option \<Rightarrow> int option \<Rightarrow> date \<Rightarrow> py_error + fluxo_mensal" where
  "fluxo_caixa_mensal st ano_opt mes_opt hoje =
     (let a = (case ano_opt of None \<Rightarrow> year hoje | Some a \<Rightarrow> a);
          m = (case mes_opt of None \<Rightarrow> month hoje | Some m \<Rightarrow> m)
      in case new_date a m 1 of
           Inl e \<Rightarrow> Inl e
         | Inr ini \<Rightarrow>
      (case fim_do_mes a m of
           Inl e \<Rightarrow> Inl e
         | Inr fim \<Rightarrow>
      (case acumular (liquidada_entre ini fim ''recebido'' data_recebimento)
              (contas_receber st) ([], 0) of
         (es, total_entradas) \<Rightarrow>
      (case acumular (liquidada_entre ini fim ''pago'' data_pagamento)
              (contas_pagar st) ([], 0) of
         (ss, total_saidas) \<Rightarrow>
           Inr \<lparr>entradas = \<lparr>transacoes = es, total_lado = float_of_decimal total_entradas,
                             quantidade = length es\<rparr>,
                saidas = \<lparr>transacoes = ss, total_lado = float_of_decimal total_saidas,
                           quantidade = length ss\<rparr>,
                saldo_fluxo = float_of_decimal (dec_sub total_entradas total_saidas),
                ano = a, mes = m, mes_inicio = ini, mes_fim = fim,
                entradas_por_categoria =
                  map (\<lambda>(k, v). (k, float_of_decimal v)) (categorias_fluxo es []),
                saidas_por_categoria =
                  map (\<lambda>(k, v). (k, float_of_decimal v)) (categorias_fluxo ss [])\<rparr>))))"

text \<open>The range function reads the store and assigns nothing to it; the store is
  returned beside the result to say so.\<close>

definition fluxo_caixa_periodo ::
  "sistema \<Rightarrow> string \<Rightarrow> string \<Rightarrow> (erro + fluxo_periodo) \<times> sistema" where
  "fluxo_caixa_periodo st di df =
     (if \<not> validar_data di \<or> \<not> validar_data df then (Inl Data_invalida, st)
      else
        (case (strptime_ymd di, strptime_ymd df) of
           (Inr data_ini, Inr data_fim_obj) \<Rightarrow>
             if date_lt data_fim_obj data_ini then (Inl Data_inicial_maior, st)
             else
               (case acumular (liquidada_entre data_ini data_fim_obj ''recebido'' data_recebimento)
                       (contas_receber st) ([], 0) of
                  (es, total_entradas) \<Rightarrow>
               (case acumular (liquidada_entre data_ini data_fim_obj ''pago'' data_pagamento)
                       (contas_pagar st) ([], 0) of
                  (ss, total_saidas) \<Rightarrow>
                    (Inr \<lparr>entradas = \<lparr>transacoes = es,
                                       total_lado = float_of_decimal total_entradas,
                                       quantidade = length es\<rparr>,
                          saidas = \<lparr>transacoes = ss,
                                     total_lado = float_of_decimal total_saidas,
                                     quantidade = length ss\<rparr>,
                          saldo_fluxo = float_of_decimal (dec_sub total_entradas total_saidas),
                          periodo_inicio = di, periodo_fim = df\<rparr>, st)))
         | _ \<Rightarrow> (Inl Data_invalida, st)))"


subsection \<open>Sample data\<close>

text \<open>The category dictionary written by \<open>inicializar_categorias_padrao\<close>, and accounts
  as the registration functions build them, used to run the functions on concrete
  stores.\<close>

definition categorias_padrao :: "categoria_info dict dict" where
  "categorias_padrao =
     [(''contas_pagar'',
       [(''aluguel'', \<lparr>nome = ''Aluguel'', tipo = ''fixa''\<rparr>),
        (''internet'', \<lparr>nome = ''Internet'', tipo = ''fixa''\<rparr>),
        (''energia'', \<lparr>nome = ''Energia'', tipo = ''variavel''\<rparr>),
        (''agua'', \<lparr>nome = ''Agua'', tipo = ''variavel''\<rparr>),
        (''fornecedor'', \<lparr>nome = ''Fornecedor'', tipo = ''variavel''\<rparr>),
        (''imposto'', \<lparr>nome = ''Imposto'', tipo = ''fixa''\<rparr>),
        (''salario'', \<lparr>nome = ''Salario'', tipo = ''fixa''\<rparr>),
        (''manutencao'', \<lparr>nome = ''Manutencao'', tipo = ''variavel''\<rparr>),
        (''marketing'', \<lparr>nome = ''Marketing'', tipo = ''variavel''\<rparr>),
        (''outros'', \<lparr>nome = ''Outros'', tipo = ''variavel''\<rparr>)]),
      (''contas_receber'',
       [(''venda'', \<lparr>nome = ''Venda'', tipo = ''variavel''\<rparr>),
        (''servico'', \<lparr>nome = ''Servico'', tipo = ''variavel''\<rparr>),
        (''comissao'', \<lparr>nome = ''Comissao'', tipo = ''variavel''\<rparr>),
        (''aluguel_recebido'', \<lparr>nome = ''Aluguel Recebido'', tipo = ''fixa''\<rparr>),
        (''investimento'', \<lparr>nome = ''Investimento'', tipo = ''variavel''\<rparr>),
        (''outros_recebimentos'', \<lparr>nome = ''Outros Recebimentos'', tipo = ''variavel''\<rparr>)])]"

definition conta_pagar_exemplo ::
  "string \<Rightarrow> string \<Rightarrow> rat \<Rightarrow> string \<Rightarrow> string option \<Rightarrow> bool \<Rightarrow> conta_pagar" where
  "conta_pagar_exemplo i cat v s dp a =
     \<lparr>id_conta = i, descricao = ''Rent'', categoria = cat, valor = v,
      data_vencimento = ''2024-03-05'', status = s,
      status_vencimento = (if s = ''pago'' then ''pago'' else ''atrasado''),
      observacoes = [], data_cadastro = ''2024-03-01 09:00:00'', usuario_cadastro = ''admin'',
      ativo = a, fornecedor = [], data_pagamento = dp,
      usuario_pagamento = (if s = ''pago'' then Some ''admin'' else None)\<rparr>"

definition conta_receber_exemplo ::
  "string \<Rightarrow> string \<Rightarrow> rat \<Rightarrow> string \<Rightarrow> string option \<Rightarrow> bool \<Rightarrow> conta_receber" where
  "conta_receber_exemplo i cat v s dr a =
     \<lparr>id_conta = i, descricao = ''Invoice'', categoria = cat, valor = v,
      data_vencimento = ''2024-03-05'', status = s,
      status_vencimento = (if s = ''recebido'' then ''recebido'' else ''atrasado''),
      observacoes = [], data_cadastro = ''2024-03-01 09:00:00'', usuario_cadastro = ''admin'',
      ativo = a, cliente = ''Ana'', data_recebimento = dr,
      usuario_recebimento = (if s = ''recebido'' then Some ''admin'' else None)\<rparr>"

definition sistema_exemplo :: "conta_pagar list \<Rightarrow> conta_receber list \<Rightarrow> sistema" where
  "sistema_exemplo ps rs =
     \<lparr>contas_pagar = ps, contas_receber = rs, categorias = categorias_padrao,
      arquivo_contas_pagar = ps, arquivo_contas_receber = rs\<rparr>"

section \<open>Properties\<close>

subsection \<open>The calendar\<close>

lemma div_pred:
  fixes y k :: int
  assumes "0 < k"
  shows "(y - 1) div k = (if y mod k = 0 then y div k - 1 else y div k)"
proof (cases "y mod k = 0")
  case True
  have "y - 1 = k * (y div k - 1) + (k - 1)"
    using True by (simp add: algebra_simps) (metis True add.right_neutral mult_div_mod_eq)
  then have "(y - 1) div k = y div k - 1"
    using assms by (intro int_div_pos_eq[where r = "k - 1"]) auto
  with True show ?thesis by simp
next
  case False
  have "0 \<le> y mod k" "y mod k < k" using assms by simp_all
  with False have r: "0 \<le> y mod k - 1" "y mod k - 1 < k" by linarith+
  have "y - 1 = k * (y div k) + (y mod k - 1)" by (simp add: algebra_simps)
  then have "(y - 1) div k = y div k"
    using r by (intro int_div_pos_eq[where r = "y mod k - 1"]) auto
  with False show ?thesis by simp
qed

lemma mod_chain:
  fixes y :: int
  shows "y mod 400 = 0 \<Longrightarrow> y mod 100 = 0" "y mod 100 = 0 \<Longrightarrow> y mod 4 = 0"
  by (auto simp: mod_eq_0_iff_dvd elim: dvd_trans[rotated])

lemma days_before_year_step:
  "days_before_year (y + 1) = days_before_year y + (if is_leap y then 366 else 365)"
  using mod_chain[of y]
  unfolding days_before_year_def is_leap_def
  by (auto simp: div_pred[of 4 y] div_pred[of 100 y] div_pred[of 400 y])

lemma days_before_year_mono: "a \<le> b \<Longrightarrow> days_before_year a \<le> days_before_year b"
proof (induction b rule: int_ge_induct)
  case base
  show ?case by simp
next
  case (step i)
  then show ?case using days_before_year_step[of i] by (simp split: if_splits)
qed

lemma month_cases:
  fixes m :: int
  assumes "1 \<le> m" "m \<le> 12"
  shows "m = 1 \<or> m = 2 \<or> m = 3 \<or> m = 4 \<or> m = 5 \<or> m = 6 \<or> m = 7 \<or> m = 8 \<or> m = 9 \<or>
         m = 10 \<or> m = 11 \<or> m = 12"
  using assms by arith

lemma days_before_month_step:
  assumes "1 \<le> m" "m \<le> 11"
  shows "days_before_month y (m + 1) = days_before_month y m + days_in_month y m"
  using month_cases[of m] assms
  by (auto simp: days_before_month_def days_before_month_common_def days_in_month_def)

lemma days_before_month_mono:
  assumes "a \<le> b" "1 \<le> a" "b \<le> 12"
  shows "days_before_month y a \<le> days_before_month y b"
  using assms
proof (induction b rule: int_ge_induct)
  case base
  show ?case by simp
next
  case (step i)
  have "0 \<le> days_in_month y i" by (simp add: days_in_month_def)
  with step show ?case using days_before_month_step[of i y] by simp
qed

lemma days_before_month_year_end:
  "days_before_month y 12 + 31 = (if is_leap y then 366 else 365)"
  by (simp add: days_before_month_def days_before_month_common_def)

lemma days_before_month_nonneg: "1 \<le> m \<Longrightarrow> m \<le> 12 \<Longrightarrow> 0 \<le> days_before_month y m"
  using days_before_month_mono[of 1 m y]
  by (simp add: days_before_month_def days_before_month_common_def split: if_splits)

lemma month_within_year:
  assumes "1 \<le> m" "m \<le> 12"
  shows "days_before_month y m + days_in_month y m \<le> (if is_leap y then 366 else 365)"
proof (cases "m = 12")
  case True
  then show ?thesis using days_before_month_year_end[of y] by (simp add: days_in_month_def)
next
  case False
  then have m11: "m \<le> 11" using assms by simp
  then have "days_before_month y m + days_in_month y m = days_before_month y (m + 1)"
    using days_before_month_step assms by simp
  also have "\<dots> \<le> days_before_month y 12"
    using assms m11 by (intro days_before_month_mono) auto
  also have "\<dots> \<le> (if is_leap y then 366 else 365)"
    using days_before_month_year_end[of y] by (simp split: if_splits)
  finally show ?thesis .
qed

lemma toordinal_strict_mono:
  assumes "valid_date a" "valid_date b" "date_lt a b"
  shows "toordinal a < toordinal b"
proof -
  from assms(3) consider (y) "year a < year b"
    | (m) "year a = year b" "month a < month b"
    | (d) "year a = year b" "month a = month b" "day a < day b"
    by (auto simp: date_lt_def)
  then show ?thesis
  proof cases
    case y
    have "toordinal a \<le> days_before_year (year a) +
            (days_before_month (year a) (month a) + days_in_month (year a) (month a))"
      using assms(1) by (simp add: toordinal_def valid_date_def)
    also have "\<dots> \<le> days_before_year (year a + 1)"
      using month_within_year[of "month a" "year a"] assms(1) days_before_year_step[of "year a"]
      by (simp add: valid_date_def split: if_splits)
    also have "\<dots> \<le> days_before_year (year b)"
      using y by (intro days_before_year_mono) simp
    also have "\<dots> < toordinal b"
      using assms(2) days_before_month_nonneg[of "month b" "year b"]
      by (simp add: toordinal_def valid_date_def)
    finally show ?thesis .
  next
    case m
    have m11: "month a \<le> 11" using m assms(2) by (simp add: valid_date_def)
    have "days_before_month (year a) (month a) + day a \<le> days_before_month (year a) (month a + 1)"
      using days_before_month_step[of "month a" "year a"] assms(1) m11
      by (simp add: valid_date_def)
    also have "\<dots> \<le> days_before_month (year a) (month b)"
      using m assms by (intro days_before_month_mono) (auto simp: valid_date_def)
    finally show ?thesis using m assms(2) by (simp add: toordinal_def valid_date_def)
  next
    case d
    then show ?thesis by (simp add: toordinal_def)
  qed
qed

lemma date_trichotomy: "date_lt a b \<or> a = b \<or> date_lt b a"
  by (cases a; cases b) (auto simp: date_lt_def)

lemma date_lt_iff_toordinal:
  assumes "valid_date a" "valid_date b"
  shows "date_lt a b \<longleftrightarrow> toordinal a < toordinal b"
  using toordinal_strict_mono[OF assms] toordinal_strict_mono[OF assms(2,1)]
    date_trichotomy[of a b]
  by auto

lemma date_eq_iff_toordinal:
  assumes "valid_date a" "valid_date b"
  shows "a = b \<longleftrightarrow> toordinal a = toordinal b"
  using toordinal_strict_mono[OF assms] toordinal_strict_mono[OF assms(2,1)]
    date_trichotomy[of a b]
  by auto

lemma new_date_valid: "new_date y m d = Inr x \<Longrightarrow> valid_date x"
  by (auto simp: new_date_def split: if_splits)

lemma strptime_valid: "strptime_ymd s = Inr x \<Longrightarrow> valid_date x"
  by (auto simp: strptime_ymd_def dest: new_date_valid
      split: list.splits option.splits if_splits prod.splits)

lemma strptime_error: "strptime_ymd s = Inl e \<Longrightarrow> e = ValueError"
  by (auto simp: strptime_ymd_def new_date_def
      split: list.splits option.splits if_splits prod.splits)

subsection \<open>The due status\<close>

text \<open>
  C4. \<open>calcular_status_vencimento\<close> returns a status for every string and never raises:
  a string that \<open>strptime\<close> refuses gives \<open>data_invalida\<close>; a due date before the
  reference date gives \<open>atrasado\<close>, the reference date itself \<open>vencendo_hoje\<close>, a due date
  one to seven days after it \<open>vencendo_em_breve\<close>, and a later one \<open>no_prazo\<close>. The order
  of two dates agrees with the sign of their difference in days, so the four cases cover
  every pair of dates.
\<close>

theorem calcular_status_vencimento_total:
  assumes "valid_date hoje"
  shows "calcular_status_vencimento hoje s \<in>
           {''atrasado'', ''vencendo_hoje'', ''vencendo_em_breve'', ''no_prazo'', ''data_invalida''} \<and>
         (case strptime_ymd s of
            Inl e \<Rightarrow> calcular_status_vencimento hoje s = ''data_invalida''
          | Inr due \<Rightarrow>
              (date_lt due hoje \<longrightarrow> calcular_status_vencimento hoje s = ''atrasado'') \<and>
              (due = hoje \<longrightarrow> calcular_status_vencimento hoje s = ''vencendo_hoje'') \<and>
              (0 < days_between due hoje \<and> days_between due hoje \<le> 7 \<longrightarrow>
                 calcular_status_vencimento hoje s = ''vencendo_em_breve'') \<and>
              (7 < days_between due hoje \<longrightarrow> calcular_status_vencimento hoje s = ''no_prazo'') \<and>
              (date_lt due hoje \<longleftrightarrow> days_between due hoje < 0) \<and>
              (due = hoje \<longleftrightarrow> days_between due hoje = 0))"
proof (cases "strptime_ymd s")
  case (Inl e)
  then show ?thesis
    by (simp add: calcular_status_vencimento_def status_vencimento_try_def)
next
  case (Inr due)
  then have v: "valid_date due" by (rule strptime_valid)
  have lt: "date_lt due hoje \<longleftrightarrow> days_between due hoje < 0"
    using date_lt_iff_toordinal[OF v assms] by (simp add: days_between_def)
  have eq: "due = hoje \<longleftrightarrow> days_between due hoje = 0"
    using date_eq_iff_toordinal[OF v assms] by (simp add: days_between_def)
  show ?thesis
    using Inr lt eq
    by (auto simp: calcular_status_vencimento_def status_vencimento_try_def)
qed

theorem calcular_status_vencimento_total_witness:
  "valid_date (Date 2024 3 10) \<and>
   strptime_ymd ''2024-03-05'' = Inr (Date 2024 3 5) \<and>
   date_lt (Date 2024 3 5) (Date 2024 3 10) \<and>
   calcular_status_vencimento (Date 2024 3 10) ''2024-03-05'' = ''atrasado'' \<and>
   strptime_ymd ''2024-03-17'' = Inr (Date 2024 3 17) \<and>
   days_between (Date 2024 3 17) (Date 2024 3 10) = 7 \<and>
   calcular_status_vencimento (Date 2024 3 10) ''2024-03-17'' = ''vencendo_em_breve'' \<and>
   strptime_ymd ''2024-02-30'' = Inl ValueError \<and>
   calcular_status_vencimento (Date 2024 3 10) ''2024-02-30'' = ''data_invalida''"
proof -
  have v: "valid_date (Date 2024 3 10)" by code_simp
  have p1: "strptime_ymd ''2024-03-05'' = Inr (Date 2024 3 5)" by code_simp
  have p2: "strptime_ymd ''2024-03-17'' = Inr (Date 2024 3 17)" by code_simp
  have p3: "strptime_ymd ''2024-02-30'' = Inl ValueError" by code_simp
  have l1: "date_lt (Date 2024 3 5) (Date 2024 3 10)" by code_simp
  have d2: "days_between (Date 2024 3 17) (Date 2024 3 10) = 7" by code_simp
  from calcular_status_vencimento_total[OF v, of "''2024-03-05''"] p1 l1
  have r1: "calcular_status_vencimento (Date 2024 3 10) ''2024-03-05'' = ''atrasado''"
    by simp
  from calcular_status_vencimento_total[OF v, of "''2024-03-17''"] p2 d2
  have r2: "calcular_status_vencimento (Date 2024 3 10) ''2024-03-17'' = ''vencendo_em_breve''"
    by simp
  from calcular_status_vencimento_total[OF v, of "''2024-02-30''"] p3
  have r3: "calcular_status_vencimento (Date 2024 3 10) ''2024-02-30'' = ''data_invalida''"
    by simp
  from v p1 p2 p3 l1 d2 r1 r2 r3 show ?thesis by simp
qed

subsection \<open>Numbers in ids\<close>

lemma of_char_digit_char: "d < 10 \<Longrightarrow> (of_char (digit_char d) :: nat) = 48 + d"
  by (simp add: digit_char_def)

lemma digit_of_digit_char: "d < 10 \<Longrightarrow> digit_of (digit_char d) = Some (int d)"
  by (simp add: digit_of_def of_char_digit_char Let_def)

lemma digit_of_not_space: "digit_of c = Some d \<Longrightarrow> \<not> is_space c"
  by (auto simp: is_space_def digit_of_def Let_def split: if_splits)

lemma digit_of_not_sign:
  "digit_of c = Some d \<Longrightarrow> c \<noteq> CHR ''-'' \<and> c \<noteq> CHR ''+''"
  by (auto simp: digit_of_def Let_def split: if_splits)

lemma digit_of_zero: "digit_of CHR ''0'' = Some 0"
  by (simp add: digit_of_def)

lemma int_digits_snoc:
  "int_digits acc s = Some v \<Longrightarrow> digit_of c = Some d \<Longrightarrow>
   int_digits acc (s @ [c]) = Some (10 * v + d)"
proof (induction acc s rule: int_digits.induct)
  case (1 acc)
  then show ?case by simp
next
  case (2 acc x r)
  then show ?case
    by (cases "digit_of x") (auto split: if_splits list.splits option.splits)
qed

lemma int_unsigned_snoc:
  "int_unsigned s = Some v \<Longrightarrow> digit_of c = Some d \<Longrightarrow>
   int_unsigned (s @ [c]) = Some (10 * v + d)"
  by (cases s) (auto simp: int_unsigned_def int_digits_snoc split: option.splits)

lemma int_unsigned_str_nat: "int_unsigned (str_nat n) = Some (int n)"
proof (induction n rule: str_nat.induct)
  case (1 n)
  show ?case
  proof (cases "n < 10")
    case True
    then show ?thesis
      by (subst str_nat.simps) (simp add: int_unsigned_def digit_of_digit_char)
  next
    case False
    have "int_unsigned (str_nat (n div 10) @ [digit_char (n mod 10)]) =
            Some (10 * int (n div 10) + int (n mod 10))"
      using 1[OF False] by (intro int_unsigned_snoc) (simp_all add: digit_of_digit_char)
    then show ?thesis
      using False by (subst str_nat.simps) (simp add: zdiv_int zmod_int)
  qed
qed

text \<open>A string that \<open>int_unsigned\<close> reads starts and ends with a digit.\<close>

lemma int_digits_last:
  "int_digits acc s = Some v \<Longrightarrow> s \<noteq> [] \<Longrightarrow> digit_of (last s) \<noteq> None"
proof (induction acc s rule: int_digits.induct)
  case (1 acc)
  then show ?case by simp
next
  case (2 acc x r)
  then show ?case
    by (cases "digit_of x") (auto split: if_splits list.splits option.splits)
qed

lemma int_unsigned_ends:
  assumes "int_unsigned s = Some v"
  shows "s \<noteq> [] \<and> digit_of (hd s) \<noteq> None \<and> digit_of (last s) \<noteq> None"
proof (cases s)
  case Nil
  with assms show ?thesis by (simp add: int_unsigned_def)
next
  case (Cons c r)
  with assms obtain d where d: "digit_of c = Some d" "int_digits d r = Some v"
    by (auto simp: int_unsigned_def split: option.splits)
  show ?thesis
  proof (cases "r = []")
    case True
    with Cons d show ?thesis by simp
  next
    case False
    with int_digits_last[OF d(2)] Cons d show ?thesis by simp
  qed
qed

lemma int_unsigned_zero_cons:
  "int_unsigned s = Some v \<Longrightarrow> int_unsigned (CHR ''0'' # s) = Some v"
  by (cases s) (auto simp: int_unsigned_def digit_of_zero split: option.splits)

lemma int_unsigned_zeros:
  "int_unsigned s = Some v \<Longrightarrow> int_unsigned (replicate k CHR ''0'' @ s) = Some v"
  by (induction k) (simp_all add: int_unsigned_zero_cons)

lemma dropWhile_hd: "xs \<noteq> [] \<Longrightarrow> \<not> P (hd xs) \<Longrightarrow> dropWhile P xs = xs"
  by (cases xs) simp_all

lemma strip_none:
  assumes "s \<noteq> []" "\<not> is_space (hd s)" "\<not> is_space (last s)"
  shows "rev (dropWhile is_space (rev (dropWhile is_space s))) = s"
proof -
  from assms have a: "dropWhile is_space s = s" by (intro dropWhile_hd)
  from assms have "dropWhile is_space (rev s) = rev s"
    by (intro dropWhile_hd) (simp_all add: hd_rev)
  with a show ?thesis by simp
qed

lemma py_int_unsigned:
  assumes "int_unsigned s = Some v"
  shows "py_int s = Inr v" "py_int (CHR ''-'' # s) = Inr (- v)"
proof -
  from int_unsigned_ends[OF assms] obtain a b where
    s: "s \<noteq> []" "digit_of (hd s) = Some a" "digit_of (last s) = Some b" by auto
  have st: "rev (dropWhile is_space (rev (dropWhile is_space s))) = s"
    using s by (intro strip_none) (auto dest: digit_of_not_space)
  from s obtain c r where cr: "s = c # r" "digit_of c = Some a" by (cases s) auto
  have "py_int s =
          (case (case s of [] \<Rightarrow> None
                 | c # u \<Rightarrow> if c = CHR ''-'' then map_option uminus (int_unsigned u)
                            else if c = CHR ''+'' then int_unsigned u else int_unsigned s) of
             Some n \<Rightarrow> Inr n | None \<Rightarrow> Inl ValueError)"
    by (simp only: py_int_def st Let_def)
  also have "\<dots> = Inr v"
    using assms digit_of_not_sign[OF cr(2)] by (simp add: cr(1))
  finally show "py_int s = Inr v" .
  have "\<not> is_space CHR ''-''" by (simp add: is_space_def)
  then have st': "rev (dropWhile is_space (rev (dropWhile is_space (CHR ''-'' # s)))) = CHR ''-'' # s"
    using s by (intro strip_none) (auto dest: digit_of_not_space)
  have "py_int (CHR ''-'' # s) =
          (case (case CHR ''-'' # s of [] \<Rightarrow> None
                 | c # u \<Rightarrow> if c = CHR ''-'' then map_option uminus (int_unsigned u)
                            else if c = CHR ''+'' then int_unsigned u
                            else int_unsigned (CHR ''-'' # s)) of
             Some n \<Rightarrow> Inr n | None \<Rightarrow> Inl ValueError)"
    by (simp only: py_int_def st' Let_def)
  also have "\<dots> = Inr (- v)" using assms by simp
  finally show "py_int (CHR ''-'' # s) = Inr (- v)" .
qed

lemma py_int_format_03d: "py_int (format_03d n) = Inr n"
proof (cases "n < 0")
  case True
  have "int_unsigned (replicate (2 - length (str_nat (nat (- n)))) CHR ''0'' @ str_nat (nat (- n))) =
          Some (int (nat (- n)))"
    by (intro int_unsigned_zeros int_unsigned_str_nat)
  from py_int_unsigned(2)[OF this] True show ?thesis by (simp add: format_03d_def)
next
  case False
  have "int_unsigned (replicate (3 - length (str_nat (nat n))) CHR ''0'' @ str_nat (nat n)) =
          Some (int (nat n))"
    by (intro int_unsigned_zeros int_unsigned_str_nat)
  from py_int_unsigned(1)[OF this] False show ?thesis by (simp add: format_03d_def)
qed

lemma numeros_ids_iff:
  "k \<in> set (numeros_ids p ids) \<longleftrightarrow> (\<exists>i\<in>set ids. startswith i p \<and> py_int (drop 2 i) = Inr k)"
  by (induction ids) (auto split: sum.splits)

lemma fold_max_ge: "x \<in> set (n # ns) \<Longrightarrow> x \<le> fold max ns (n :: int)"
proof -
  assume "x \<in> set (n # ns)"
  then have "x \<le> Max (set (n # ns))" by (intro Max_ge) auto
  then show ?thesis by (simp only: Max.set_eq_fold)
qed

text \<open>The number that \<open>proximo_id\<close> picks is above the number of every id with the prefix,
  and is 1 when no id has one; the id it builds is not in the list.\<close>

lemma proximo_id_novo:
  assumes "length p = 2"
  shows "\<exists>n. proximo_id p ids = p @ format_03d n \<and>
              py_int (drop 2 (proximo_id p ids)) = Inr n \<and>
              (\<forall>i\<in>set ids. \<forall>k. startswith i p \<and> py_int (drop 2 i) = Inr k \<longrightarrow> k < n) \<and>
              ((\<forall>i\<in>set ids. \<forall>k. \<not> (startswith i p \<and> py_int (drop 2 i) = Inr k)) \<longrightarrow> n = 1) \<and>
              proximo_id p ids \<notin> set ids"
proof -
  define n where "n = (case numeros_ids p ids of [] \<Rightarrow> 1 | x # xs \<Rightarrow> fold max xs x + 1)"
  have one: "format_03d 1 = ''001''" by code_simp
  have eq: "proximo_id p ids = p @ format_03d n"
    by (cases ids) (auto simp: proximo_id_def n_def one split: list.splits)
  have num: "py_int (drop 2 (proximo_id p ids)) = Inr n"
    using assms by (simp add: eq py_int_format_03d)
  have above: "k < n" if "i \<in> set ids" "startswith i p" "py_int (drop 2 i) = Inr k" for i k
  proof -
    from that have "k \<in> set (numeros_ids p ids)" by (auto simp: numeros_ids_iff)
    then show ?thesis
      using fold_max_ge[of k] by (cases "numeros_ids p ids") (auto simp: n_def)
  qed
  have first: "n = 1" if "\<forall>i\<in>set ids. \<forall>k. \<not> (startswith i p \<and> py_int (drop 2 i) = Inr k)"
  proof -
    from that have "k \<notin> set (numeros_ids p ids)" for k by (auto simp: numeros_ids_iff)
    then have "numeros_ids p ids = []" by (cases "numeros_ids p ids") auto
    then show ?thesis by (simp add: n_def)
  qed
  have fresh: "proximo_id p ids \<notin> set ids"
  proof
    assume "proximo_id p ids \<in> set ids"
    moreover have "startswith (proximo_id p ids) p" by (simp add: eq startswith_def)
    ultimately have "n < n" using above num by blast
    then show False by simp
  qed
  from eq num above first fresh show ?thesis by blast
qed

lemma excluir_loop_ids: "map id_conta (snd (excluir_loop cid cs)) = map id_conta cs"
  by (induction cs) (auto split: prod.splits)

subsection \<open>Ids of new accounts\<close>

text \<open>
  C8. A successful registration gives the new account the prefix of its kind (\<open>CP\<close> or
  \<open>CR\<close>) and a number above the number of every id of that kind in the list, active or
  not, and the number 1 when no id of the kind has a number. So the new id is none of the
  ids in the list, the list grows by that id alone, and soft deletion removes no id:
  numbers grow with each registration and are never used again.
\<close>

theorem cadastrar_id_crescente:
  "(cadastrar_conta_pagar hoje agora st desc cat val venc forn obs usr = Inr (Some cid, st') \<longrightarrow>
      (\<exists>n. cid = ''CP'' @ format_03d n \<and> py_int (drop 2 cid) = Inr n \<and>
            (\<forall>c\<in>set (contas_pagar st). \<forall>k.
                startswith (id_conta c) ''CP'' \<and> py_int (drop 2 (id_conta c)) = Inr k \<longrightarrow> k < n) \<and>
            ((\<forall>c\<in>set (contas_pagar st). \<forall>k.
                \<not> (startswith (id_conta c) ''CP'' \<and> py_int (drop 2 (id_conta c)) = Inr k)) \<longrightarrow>
             n = 1)) \<and>
      cid \<notin> id_conta ` set (contas_pagar st) \<and>
      map id_conta (contas_pagar st') = map id_conta (contas_pagar st) @ [cid] \<and>
      map id_conta (contas_pagar (snd (excluir_conta_pagar st' x u))) =
        map id_conta (contas_pagar st')) \<and>
   (cadastrar_conta_receber hoje agora st cli desc cat val venc obs usr = Inr (Some cid, st') \<longrightarrow>
      (\<exists>n. cid = ''CR'' @ format_03d n \<and> py_int (drop 2 cid) = Inr n \<and>
            (\<forall>c\<in>set (contas_receber st). \<forall>k.
                startswith (id_conta c) ''CR'' \<and> py_int (drop 2 (id_conta c)) = Inr k \<longrightarrow> k < n) \<and>
            ((\<forall>c\<in>set (contas_receber st). \<forall>k.
                \<not> (startswith (id_conta c) ''CR'' \<and> py_int (drop 2 (id_conta c)) = Inr k)) \<longrightarrow>
             n = 1)) \<and>
      cid \<notin> id_conta ` set (contas_receber st) \<and>
      map id_conta (contas_receber st') = map id_conta (contas_receber st) @ [cid] \<and>
      map id_conta (contas_receber (snd (excluir_conta_receber st' x u))) =
        map id_conta (contas_receber st'))"
proof (intro conjI impI)
  assume a: "cadastrar_conta_pagar hoje agora st desc cat val venc forn obs usr = Inr (Some cid, st')"
  then have cid: "cid = proximo_id ''CP'' (map id_conta (contas_pagar st))"
    and st': "map id_conta (contas_pagar st') = map id_conta (contas_pagar st) @ [cid]"
    by (auto simp: cadastrar_conta_pagar_def gerar_id_conta_def salvar_contas_pagar_def Let_def
        split: if_splits option.splits)
  have len: "length ''CP'' = 2" by simp
  from proximo_id_novo[OF len, of "map id_conta (contas_pagar st)"]
  obtain n where n: "cid = ''CP'' @ format_03d n" "py_int (drop 2 cid) = Inr n"
    "\<forall>i\<in>set (map id_conta (contas_pagar st)). \<forall>k.
        startswith i ''CP'' \<and> py_int (drop 2 i) = Inr k \<longrightarrow> k < n"
    "(\<forall>i\<in>set (map id_conta (contas_pagar st)). \<forall>k.
        \<not> (startswith i ''CP'' \<and> py_int (drop 2 i) = Inr k)) \<longrightarrow> n = 1"
    "cid \<notin> set (map id_conta (contas_pagar st))"
    unfolding cid by blast
  show "\<exists>n. cid = ''CP'' @ format_03d n \<and> py_int (drop 2 cid) = Inr n \<and>
            (\<forall>c\<in>set (contas_pagar st). \<forall>k.
                startswith (id_conta c) ''CP'' \<and> py_int (drop 2 (id_conta c)) = Inr k \<longrightarrow> k < n) \<and>
            ((\<forall>c\<in>set (contas_pagar st). \<forall>k.
                \<not> (startswith (id_conta c) ''CP'' \<and> py_int (drop 2 (id_conta c)) = Inr k)) \<longrightarrow>
             n = 1)"
    using n(1-4) by (intro exI[of _ n]) simp
  show "cid \<notin> id_conta ` set (contas_pagar st)" using n(5) by simp
  show "map id_conta (contas_pagar st') = map id_conta (contas_pagar st) @ [cid]" by (rule st')
  show "map id_conta (contas_pagar (snd (excluir_conta_pagar st' x u))) =
          map id_conta (contas_pagar st')"
    using excluir_loop_ids[of x "contas_pagar st'"]
    by (auto simp: excluir_conta_pagar_def salvar_contas_pagar_def split: prod.splits bool.splits)
next
  assume a: "cadastrar_conta_receber hoje agora st cli desc cat val venc obs usr = Inr (Some cid, st')"
  then have cid: "cid = proximo_id ''CR'' (map id_conta (contas_receber st))"
    and st': "map id_conta (contas_receber st') = map id_conta (contas_receber st) @ [cid]"
    by (auto simp: cadastrar_conta_receber_def gerar_id_conta_def salvar_contas_receber_def Let_def
        split: if_splits option.splits)
  have len: "length ''CR'' = 2" by simp
  from proximo_id_novo[OF len, of "map id_conta (contas_receber st)"]
  obtain n where n: "cid = ''CR'' @ format_03d n" "py_int (drop 2 cid) = Inr n"
    "\<forall>i\<in>set (map id_conta (contas_receber st)). \<forall>k.
        startswith i ''CR'' \<and> py_int (drop 2 i) = Inr k \<longrightarrow> k < n"
    "(\<forall>i\<in>set (map id_conta (contas_receber st)). \<forall>k.
        \<not> (startswith i ''CR'' \<and> py_int (drop 2 i) = Inr k)) \<longrightarrow> n = 1"
    "cid \<notin> set (map id_conta (contas_receber st))"
    unfolding cid by blast
  show "\<exists>n. cid = ''CR'' @ format_03d n \<and> py_int (drop 2 cid) = Inr n \<and>
            (\<forall>c\<in>set (contas_receber st). \<forall>k.
                startswith (id_conta c) ''CR'' \<and> py_int (drop 2 (id_conta c)) = Inr k \<longrightarrow> k < n) \<and>
            ((\<forall>c\<in>set (contas_receber st). \<forall>k.
                \<not> (startswith (id_conta c) ''CR'' \<and> py_int (drop 2 (id_conta c)) = Inr k)) \<longrightarrow>
             n = 1)"
    using n(1-4) by (intro exI[of _ n]) simp
  show "cid \<notin> id_conta ` set (contas_receber st)" using n(5) by simp
  show "map id_conta (contas_receber st') = map id_conta (contas_receber st) @ [cid]" by (rule st')
  show "map id_conta (contas_receber (snd (excluir_conta_receber st' x u))) =
          map id_conta (contas_receber st')"
    using excluir_loop_ids[of x "contas_receber st'"]
    by (auto simp: excluir_conta_receber_def salvar_contas_receber_def split: prod.splits bool.splits)
qed

theorem cadastrar_id_crescente_witness:
  "cadastrar_conta_pagar (Date 2024 3 10) ''2024-03-10 08:00:00''
     (sistema_exemplo [conta_pagar_exemplo ''CP001'' ''aluguel'' 1500 ''pendente'' None False,
                       conta_pagar_exemplo ''CP007'' ''energia'' 80 ''pendente'' None True] [])
     ''Rent'' ''aluguel'' 1500 ''2024-03-05'' [] [] ''admin'' =
   Inr (Some ''CP008'',
        sistema_exemplo
          [conta_pagar_exemplo ''CP001'' ''aluguel'' 1500 ''pendente'' None False,
           conta_pagar_exemplo ''CP007'' ''energia'' 80 ''pendente'' None True,
           (conta_pagar_exemplo ''CP008'' ''aluguel'' 1500 ''pendente'' None True)
             \<lparr>data_cadastro := ''2024-03-10 08:00:00''\<rparr>] []) \<and>
   ''CP008'' \<notin> {''CP001'', ''CP007''} \<and>
   (\<exists>n. ''CP008'' = ''CP'' @ format_03d n \<and> py_int ''008'' = Inr n)"
proof -
  let ?st = "sistema_exemplo [conta_pagar_exemplo ''CP001'' ''aluguel'' 1500 ''pendente'' None False,
                       conta_pagar_exemplo ''CP007'' ''energia'' 80 ''pendente'' None True] []"
  let ?st' = "sistema_exemplo
          [conta_pagar_exemplo ''CP001'' ''aluguel'' 1500 ''pendente'' None False,
           conta_pagar_exemplo ''CP007'' ''energia'' 80 ''pendente'' None True,
           (conta_pagar_exemplo ''CP008'' ''aluguel'' 1500 ''pendente'' None True)
             \<lparr>data_cadastro := ''2024-03-10 08:00:00''\<rparr>] []"
  have run: "cadastrar_conta_pagar (Date 2024 3 10) ''2024-03-10 08:00:00'' ?st
     ''Rent'' ''aluguel'' 1500 ''2024-03-05'' [] [] ''admin'' = Inr (Some ''CP008'', ?st')"
    by code_simp
  have ids: "id_conta ` set (contas_pagar ?st) = {''CP001'', ''CP007''}"
    by (simp add: sistema_exemplo_def conta_pagar_exemplo_def)
  from cadastrar_id_crescente[of "Date 2024 3 10" "''2024-03-10 08:00:00''" ?st
      "''Rent''" "''aluguel''" 1500 "''2024-03-05''" "[]" "[]" "''admin''" "''CP008''" ?st'] run
  have "(\<exists>n. ''CP008'' = ''CP'' @ format_03d n \<and> py_int (drop 2 ''CP008'') = Inr n) \<and>
        ''CP008'' \<notin> id_conta ` set (contas_pagar ?st)"
    by blast
  with run ids show ?thesis by simp
qed

subsection \<open>Soft deletion and settlement of an inactive account\<close>

lemma excluir_loop_inativa:
  "\<forall>c\<in>set cs. id_conta c = cid \<longrightarrow> \<not> ativo c \<Longrightarrow> excluir_loop cid cs = (False, cs)"
  by (induction cs) auto

lemma pagar_loop_inativa:
  "\<forall>c\<in>set cs. id_conta c = cid \<longrightarrow> \<not> ativo c \<Longrightarrow> pagar_loop cid dp usr h cs = (False, cs)"
  by (induction cs) auto

lemma receber_loop_inativa:
  "\<forall>c\<in>set cs. id_conta c = cid \<longrightarrow> \<not> ativo c \<Longrightarrow> receber_loop cid dr usr h cs = (False, cs)"
  by (induction cs) auto

text \<open>
  C9, as the code has it. The loop of \<open>excluir_conta_pagar\<close> and of
  \<open>excluir_conta_receber\<close> only stops at an account that is active. When every account
  with the given id is inactive, the call finds none, returns \<open>False\<close> and leaves the lists
  and the files as they were: a second deletion of the same account fails.
\<close>

theorem excluir_conta_inativa_falha:
  "((\<forall>c\<in>set (contas_pagar st). id_conta c = cid \<longrightarrow> \<not> ativo c) \<longrightarrow>
      excluir_conta_pagar st cid usr = (False, st)) \<and>
   ((\<forall>c\<in>set (contas_receber st). id_conta c = cid \<longrightarrow> \<not> ativo c) \<longrightarrow>
      excluir_conta_receber st cid usr = (False, st))"
  by (simp add: excluir_conta_pagar_def excluir_conta_receber_def excluir_loop_inativa)

theorem excluir_conta_inativa_falha_witness:
  "excluir_conta_pagar
     (sistema_exemplo [conta_pagar_exemplo ''CP001'' ''aluguel'' 1500 ''pendente'' None False]
        [conta_receber_exemplo ''CR001'' ''venda'' 200 ''pendente'' None False])
     ''CP001'' ''admin'' =
   (False,
    sistema_exemplo [conta_pagar_exemplo ''CP001'' ''aluguel'' 1500 ''pendente'' None False]
      [conta_receber_exemplo ''CR001'' ''venda'' 200 ''pendente'' None False]) \<and>
   excluir_conta_receber
     (sistema_exemplo [conta_pagar_exemplo ''CP001'' ''aluguel'' 1500 ''pendente'' None False]
        [conta_receber_exemplo ''CR001'' ''venda'' 200 ''pendente'' None False])
     ''CR001'' ''admin'' =
   (False,
    sistema_exemplo [conta_pagar_exemplo ''CP001'' ''aluguel'' 1500 ''pendente'' None False]
      [conta_receber_exemplo ''CR001'' ''venda'' 200 ''pendente'' None False])"
proof -
  let ?st = "sistema_exemplo [conta_pagar_exemplo ''CP001'' ''aluguel'' 1500 ''pendente'' None False]
      [conta_receber_exemplo ''CR001'' ''venda'' 200 ''pendente'' None False]"
  have p: "\<forall>c\<in>set (contas_pagar ?st). id_conta c = ''CP001'' \<longrightarrow> \<not> ativo c"
    by (simp add: sistema_exemplo_def conta_pagar_exemplo_def)
  have r: "\<forall>c\<in>set (contas_receber ?st). id_conta c = ''CR001'' \<longrightarrow> \<not> ativo c"
    by (simp add: sistema_exemplo_def conta_receber_exemplo_def)
  from excluir_conta_inativa_falha[of ?st "''CP001''" "''admin''"] p
  have a: "excluir_conta_pagar ?st ''CP001'' ''admin'' = (False, ?st)" by blast
  from excluir_conta_inativa_falha[of ?st "''CR001''" "''admin''"] r
  have b: "excluir_conta_receber ?st ''CR001'' ''admin'' = (False, ?st)" by blast
  from a b show ?thesis by (rule conjI)
qed

text \<open>That a repeated call succeeds, as the specification also words it, fails on a
  store with one account: the first deletion returns \<open>True\<close>, the second \<open>False\<close>.\<close>

theorem excluir_repetido_counterexample:
  "excluir_conta_pagar
     (sistema_exemplo [conta_pagar_exemplo ''CP001'' ''aluguel'' 1500 ''pendente'' None True] [])
     ''CP001'' ''admin'' =
   (True,
    sistema_exemplo [conta_pagar_exemplo ''CP001'' ''aluguel'' 1500 ''pendente'' None False] []) \<and>
   fst (excluir_conta_pagar
     (sistema_exemplo [conta_pagar_exemplo ''CP001'' ''aluguel'' 1500 ''pendente'' None False] [])
     ''CP001'' ''admin'') = False"
  by (simp add: excluir_conta_pagar_def sistema_exemplo_def conta_pagar_exemplo_def
      salvar_contas_pagar_def)

text \<open>
  C10. The id of a soft-deleted account, one that only inactive accounts carry, is not
  found by \<open>registrar_pagamento\<close> nor by \<open>registrar_recebimento\<close>: the call returns \<open>False\<close>
  and leaves the lists and the files as they were, which is also what it returns on the
  store without those accounts, where the id does not exist.
\<close>

theorem registrar_conta_inativa_falha:
  "((\<exists>c\<in>set (contas_pagar st). id_conta c = cid \<and> \<not> ativo c) \<and>
    (\<forall>c\<in>set (contas_pagar st). id_conta c = cid \<longrightarrow> \<not> ativo c) \<longrightarrow>
      registrar_pagamento st cid dp usr h = (False, st) \<and>
      fst (registrar_pagamento
             (st\<lparr>contas_pagar := filter (\<lambda>c. id_conta c \<noteq> cid) (contas_pagar st)\<rparr>)
             cid dp usr h) = False) \<and>
   ((\<exists>c\<in>set (contas_receber st). id_conta c = cid \<and> \<not> ativo c) \<and>
    (\<forall>c\<in>set (contas_receber st). id_conta c = cid \<longrightarrow> \<not> ativo c) \<longrightarrow>
      registrar_recebimento st cid dp usr h = (False, st) \<and>
      fst (registrar_recebimento
             (st\<lparr>contas_receber := filter (\<lambda>c. id_conta c \<noteq> cid) (contas_receber st)\<rparr>)
             cid dp usr h) = False)"
  by (simp add: registrar_pagamento_def registrar_recebimento_def pagar_loop_inativa
      receber_loop_inativa)

theorem registrar_conta_inativa_falha_witness:
  "registrar_pagamento
     (sistema_exemplo [conta_pagar_exemplo ''CP001'' ''aluguel'' 1500 ''pendente'' None False]
        [conta_receber_exemplo ''CR001'' ''venda'' 200 ''pendente'' None False])
     ''CP001'' (Some ''2024-03-10'') ''admin'' ''2024-03-11'' =
   (False,
    sistema_exemplo [conta_pagar_exemplo ''CP001'' ''aluguel'' 1500 ''pendente'' None False]
      [conta_receber_exemplo ''CR001'' ''venda'' 200 ''pendente'' None False]) \<and>
   registrar_recebimento
     (sistema_exemplo [conta_pagar_exemplo ''CP001'' ''aluguel'' 1500 ''pendente'' None False]
        [conta_receber_exemplo ''CR001'' ''venda'' 200 ''pendente'' None False])
     ''CR001'' (Some ''2024-03-10'') ''admin'' ''2024-03-11'' =
   (False,
    sistema_exemplo [conta_pagar_exemplo ''CP001'' ''aluguel'' 1500 ''pendente'' None False]
      [conta_receber_exemplo ''CR001'' ''venda'' 200 ''pendente'' None False])"
proof -
  let ?st = "sistema_exemplo [conta_pagar_exemplo ''CP001'' ''aluguel'' 1500 ''pendente'' None False]
      [conta_receber_exemplo ''CR001'' ''venda'' 200 ''pendente'' None False]"
  have p: "(\<exists>c\<in>set (contas_pagar ?st). id_conta c = ''CP001'' \<and> \<not> ativo c) \<and>
           (\<forall>c\<in>set (contas_pagar ?st). id_conta c = ''CP001'' \<longrightarrow> \<not> ativo c)"
    by (simp add: sistema_exemplo_def conta_pagar_exemplo_def)
  have r: "(\<exists>c\<in>set (contas_receber ?st). id_conta c = ''CR001'' \<and> \<not> ativo c) \<and>
           (\<forall>c\<in>set (contas_receber ?st). id_conta c = ''CR001'' \<longrightarrow> \<not> ativo c)"
    by (simp add: sistema_exemplo_def conta_receber_exemplo_def)
  from registrar_conta_inativa_falha[of ?st "''CP001''" "Some ''2024-03-10''" "''admin''"
      "''2024-03-11''"] p
  have a: "registrar_pagamento ?st ''CP001'' (Some ''2024-03-10'') ''admin'' ''2024-03-11'' =
             (False, ?st)" by blast
  from registrar_conta_inativa_falha[of ?st "''CR001''" "Some ''2024-03-10''" "''admin''"
      "''2024-03-11''"] r
  have b: "registrar_recebimento ?st ''CR001'' (Some ''2024-03-10'') ''admin'' ''2024-03-11'' =
             (False, ?st)" by blast
  from a b show ?thesis by (rule conjI)
qed

subsection \<open>Cash flow of a range and of a month\<close>

text \<open>
  C7. When both strings are dates and the start is after the end,
  \<open>fluxo_caixa_periodo\<close> returns the error \<open>Data inicial maior que data final\<close>, not a
  result with empty lists, and the store is as it was.
\<close>

theorem fluxo_caixa_periodo_inicio_maior:
  assumes "strptime_ymd di = Inr a" "strptime_ymd df = Inr b" "date_lt b a"
  shows "validar_data di \<and> validar_data df \<and>
         fluxo_caixa_periodo st di df = (Inl Data_inicial_maior, st)"
  using assms by (simp add: fluxo_caixa_periodo_def validar_data_def)

theorem fluxo_caixa_periodo_inicio_maior_witness:
  "strptime_ymd ''2024-03-10'' = Inr (Date 2024 3 10) \<and>
   strptime_ymd ''2024-03-09'' = Inr (Date 2024 3 9) \<and>
   date_lt (Date 2024 3 9) (Date 2024 3 10) \<and>
   fluxo_caixa_periodo
     (sistema_exemplo
        [conta_pagar_exemplo ''CP001'' ''aluguel'' 1500 ''pago'' (Some ''2024-03-10'') True] [])
     ''2024-03-10'' ''2024-03-09'' =
   (Inl Data_inicial_maior,
    sistema_exemplo
      [conta_pagar_exemplo ''CP001'' ''aluguel'' 1500 ''pago'' (Some ''2024-03-10'') True] [])"
proof -
  have a: "strptime_ymd ''2024-03-10'' = Inr (Date 2024 3 10)" by code_simp
  have b: "strptime_ymd ''2024-03-09'' = Inr (Date 2024 3 9)" by code_simp
  have c: "date_lt (Date 2024 3 9) (Date 2024 3 10)" by code_simp
  from fluxo_caixa_periodo_inicio_maior[OF a b c] a b c show ?thesis by simp
qed

lemma acumular_filter:
  "acumular sel cs (ts, tot) =
     (ts @ filter sel cs,
      foldl (\<lambda>t c. dec_add t (decimal_of_str (valor c))) tot (filter sel cs))"
  by (induction cs arbitrary: ts tot) auto

lemma fim_do_mes_ok:
  assumes "1 \<le> a" "a \<le> 9999" "1 \<le> m" "m \<le> 12" "\<not> (a = 9999 \<and> m = 12)"
  shows "fim_do_mes a m = Inr (Date a m (days_in_month a m))"
proof (cases "m = 12")
  case True
  with assms have "a + 1 \<le> 9999" by simp
  with assms True show ?thesis
    by (simp add: fim_do_mes_def new_date_def valid_date_def days_in_month_def date_pred_def)
next
  case False
  with assms have "m + 1 \<le> 12" by simp
  with assms False show ?thesis
    by (simp add: fim_do_mes_def new_date_def valid_date_def days_in_month_def date_pred_def)
qed

lemma liquidada_entre_iff:
  "liquidada_entre ini fim q dl c \<longleftrightarrow>
     ativo c \<and> status c = q \<and>
     (\<exists>s d. dl c = Some s \<and> strptime_ymd s = Inr d \<and> date_le ini d \<and> date_le d fim)"
  by (auto simp: liquidada_entre_def split: option.splits sum.splits)

text \<open>The day before a date is the date one day earlier: \<open>date_pred\<close> agrees with the
  day count.\<close>

lemma date_pred_toordinal:
  assumes "valid_date d" "date_pred d = Inr p"
  shows "valid_date p \<and> toordinal p = toordinal d - 1"
proof -
  have "1 < day d \<or> (day d = 1 \<and> 1 < month d) \<or> (day d = 1 \<and> month d = 1)"
    using assms(1) unfolding valid_date_def by linarith
  then consider (day) "1 < day d" | (mon) "day d = 1" "1 < month d" | (yr) "day d = 1" "month d = 1"
    by blast
  then show ?thesis
  proof cases
    case day
    with assms show ?thesis
      by (auto simp: date_pred_def valid_date_def toordinal_def)
  next
    case mon
    with assms have p: "p = Date (year d) (month d - 1) (days_in_month (year d) (month d - 1))"
      by (simp add: date_pred_def)
    have "1 \<le> days_in_month (year d) (month d - 1)" by (simp add: days_in_month_def)
    moreover have "days_before_month (year d) (month d) =
        days_before_month (year d) (month d - 1) + days_in_month (year d) (month d - 1)"
      using days_before_month_step[of "month d - 1" "year d"] mon assms(1)
      by (simp add: valid_date_def)
    ultimately show ?thesis
      using mon assms(1) by (simp add: p valid_date_def toordinal_def)
  next
    case yr
    with assms have y: "1 < year d" and p: "p = Date (year d - 1) 12 31"
      by (auto simp: date_pred_def split: if_splits)
    have "days_before_year (year d) =
            days_before_year (year d - 1) + (days_before_month (year d - 1) 12 + 31)"
      using days_before_year_step[of "year d - 1"] days_before_month_year_end[of "year d - 1"]
      by simp
    then show ?thesis
      using yr y assms(1)
      by (simp add: p valid_date_def toordinal_def days_in_month_def days_before_month_def
          days_before_month_common_def)
  qed
qed

text \<open>
  C6, as the code has it. For a year from 1 to 9999 and a month from 1 to 12, December
  9999 apart, \<open>fluxo_caixa_mensal\<close> takes the first day of the month and the day before
  the first day of the next month, which is the last day of the month, and keeps the
  active settled accounts whose settlement date parses to a date between the two, ends
  included. For December 9999 the first day of the next month is no date and the call
  raises ValueError.
\<close>

theorem fluxo_caixa_mensal_limites:
  assumes "1 \<le> a" "a \<le> 9999" "1 \<le> m" "m \<le> 12" "\<not> (a = 9999 \<and> m = 12)"
  shows "\<exists>r. fluxo_caixa_mensal st (Some a) (Some m) hoje = Inr r \<and>
           mes_inicio r = Date a m 1 \<and>
           mes_fim r = Date a m (days_in_month a m) \<and>
           date_pred (Date (if m = 12 then a + 1 else a) (if m = 12 then 1 else m + 1) 1) =
             Inr (mes_fim r) \<and>
           transacoes (entradas r) =
             filter (\<lambda>c. ativo c \<and> status c = ''recebido'' \<and>
                      (\<exists>s d. data_recebimento c = Some s \<and> strptime_ymd s = Inr d \<and>
                             date_le (mes_inicio r) d \<and> date_le d (mes_fim r)))
               (contas_receber st) \<and>
           transacoes (saidas r) =
             filter (\<lambda>c. ativo c \<and> status c = ''pago'' \<and>
                      (\<exists>s d. data_pagamento c = Some s \<and> strptime_ymd s = Inr d \<and>
                             date_le (mes_inicio r) d \<and> date_le d (mes_fim r)))
               (contas_pagar st) \<and>
           quantidade (entradas r) = length (transacoes (entradas r)) \<and>
           quantidade (saidas r) = length (transacoes (saidas r))"
proof -
  have ini: "new_date a m 1 = Inr (Date a m 1)"
    using assms by (simp add: new_date_def valid_date_def days_in_month_def)
  have fim: "fim_do_mes a m = Inr (Date a m (days_in_month a m))"
    using assms by (rule fim_do_mes_ok)
  have pred: "date_pred (Date (if m = 12 then a + 1 else a) (if m = 12 then 1 else m + 1) 1) =
                Inr (Date a m (days_in_month a m))"
    using assms by (simp add: date_pred_def days_in_month_def)
  show ?thesis
    using pred
    by (simp add: fluxo_caixa_mensal_def ini fim acumular_filter liquidada_entre_iff
        cong: filter_cong)
qed

theorem fluxo_caixa_mensal_limites_witness:
  "\<exists>r. fluxo_caixa_mensal
          (sistema_exemplo
             [conta_pagar_exemplo ''CP001'' ''aluguel'' 1500 ''pago'' (Some ''2024-02-29'') True,
              conta_pagar_exemplo ''CP002'' ''energia'' 80 ''pago'' (Some ''2024-03-01'') True]
             [conta_receber_exemplo ''CR001'' ''venda'' 200 ''recebido'' (Some ''2024-02-01'') True,
              conta_receber_exemplo ''CR002'' ''venda'' 300 ''recebido'' (Some ''2024-01-31'') True])
          (Some 2024) (Some 2) (Date 2024 3 10) = Inr r \<and>
        mes_inicio r = Date 2024 2 1 \<and> mes_fim r = Date 2024 2 29 \<and>
        map id_conta (transacoes (entradas r)) = [''CR001''] \<and>
        map id_conta (transacoes (saidas r)) = [''CP001'']"
proof -
  let ?st = "sistema_exemplo
             [conta_pagar_exemplo ''CP001'' ''aluguel'' 1500 ''pago'' (Some ''2024-02-29'') True,
              conta_pagar_exemplo ''CP002'' ''energia'' 80 ''pago'' (Some ''2024-03-01'') True]
             [conta_receber_exemplo ''CR001'' ''venda'' 200 ''recebido'' (Some ''2024-02-01'') True,
              conta_receber_exemplo ''CR002'' ''venda'' 300 ''recebido'' (Some ''2024-01-31'') True]"
  have dim: "days_in_month 2024 2 = 29" by code_simp
  have ids: "map_sum id (\<lambda>r. (map id_conta (transacoes (entradas r)),
                              map id_conta (transacoes (saidas r))))
               (fluxo_caixa_mensal ?st (Some 2024) (Some 2) (Date 2024 3 10)) =
             Inr ([''CR001''], [''CP001''])"
    by code_simp
  from fluxo_caixa_mensal_limites[of 2024 2 ?st "Date 2024 3 10"]
  obtain r where r: "fluxo_caixa_mensal ?st (Some 2024) (Some 2) (Date 2024 3 10) = Inr r"
    "mes_inicio r = Date 2024 2 1" "mes_fim r = Date 2024 2 (days_in_month 2024 2)"
    by auto
  from ids r(1) have "map id_conta (transacoes (entradas r)) = [''CR001'']"
    "map id_conta (transacoes (saidas r)) = [''CP001'']" by simp_all
  with r dim show ?thesis by (intro exI[of _ r]) simp
qed

text \<open>For December 9999 the call returns no bounds but raises.\<close>

theorem fluxo_caixa_mensal_counterexample:
  "fluxo_caixa_mensal (sistema_exemplo [] []) (Some 9999) (Some 12) (Date 2024 3 10) =
     Inl ValueError"
  by code_simp

subsection \<open>Cash flow of a day\<close>





subsection \<open>The sums of \<open>relatorio_financeiro\<close>\<close>

text \<open>
  C1 says that the sums of the report are exact decimal sums, so that \<open>0.10\<close> and
  \<open>0.20\<close> total \<open>0.30\<close>. The report adds the floats with \<open>sum\<close>: for two payables of
  \<open>0.1\<close> and \<open>0.2\<close> it reports the float \<open>0.30000000000000004\<close>, which is not the float
  \<open>0.3\<close> that the exact decimal sum of the two amounts gives and that
  \<open>fluxo_caixa_diario\<close>, which adds Decimals, reports for the same two amounts.
\<close>

theorem relatorio_financeiro_deriva:
  "total_pagar (rel_resumo (relatorio_financeiro
     (sistema_exemplo
        [conta_pagar_exemplo ''CP001'' ''aluguel'' (f64_round (1 / 10)) ''pendente'' None True,
         conta_pagar_exemplo ''CP002'' ''energia'' (f64_round (2 / 10)) ''pendente'' None True] [])
     None None)) = 1351079888211149 / 4503599627370496 \<and>
   float_of_decimal (decimal_of_str (f64_round (1 / 10)) + decimal_of_str (f64_round (2 / 10))) =
     5404319552844595 / 18014398509481984 \<and>
   f64_round (3 / 10) = 5404319552844595 / 18014398509481984 \<and>
   (1351079888211149 / 4503599627370496 :: rat) \<noteq> 5404319552844595 / 18014398509481984"
  by code_simp

text \<open>
  C3 says that the subtotals of the categories add up to the grand total. With payables
  of \<open>0.1\<close> (aluguel), \<open>0.2\<close> (energia) and \<open>0.6\<close> (aluguel) the report gives the total
  \<open>0.9\<close> and the subtotals \<open>0.7\<close> and \<open>0.2\<close>, whose sum is \<open>0.8999999999999999\<close> as a
  float and is not \<open>0.9\<close> as an exact number either: the floats are added in another order.
\<close>

theorem relatorio_financeiro_subtotais:
  "total_pagar (rel_resumo (relatorio_financeiro
     (sistema_exemplo
        [conta_pagar_exemplo ''CP001'' ''aluguel'' (f64_round (1 / 10)) ''pendente'' None True,
         conta_pagar_exemplo ''CP002'' ''energia'' (f64_round (2 / 10)) ''pendente'' None True,
         conta_pagar_exemplo ''CP003'' ''aluguel'' (f64_round (6 / 10)) ''pendente'' None True] [])
     None None)) = 8106479329266893 / 9007199254740992 \<and>
   map (\<lambda>(k, s). (k, sub_total s)) (categorias_pagar (relatorio_financeiro
     (sistema_exemplo
        [conta_pagar_exemplo ''CP001'' ''aluguel'' (f64_round (1 / 10)) ''pendente'' None True,
         conta_pagar_exemplo ''CP002'' ''energia'' (f64_round (2 / 10)) ''pendente'' None True,
         conta_pagar_exemplo ''CP003'' ''aluguel'' (f64_round (6 / 10)) ''pendente'' None True] [])
     None None)) =
     [(''aluguel'', 3152519739159347 / 4503599627370496),
      (''energia'', 3602879701896397 / 18014398509481984)] \<and>
   py_sum [3152519739159347 / 4503599627370496, 3602879701896397 / 18014398509481984] =
     2026619832316723 / 2251799813685248 \<and>
   (3152519739159347 / 4503599627370496 + 3602879701896397 / 18014398509481984 :: rat) \<noteq>
     8106479329266893 / 9007199254740992 \<and>
   (2026619832316723 / 2251799813685248 :: rat) \<noteq> 8106479329266893 / 9007199254740992 \<and>
   f64_round (9 / 10) = 8106479329266893 / 9007199254740992"
  by code_simp

subsection \<open>Inactive accounts in listings, searches and the report\<close>

lemma listar_loop_ativas:
  "listar_loop hoje sf cf cs = (cs', fs) \<Longrightarrow>
   (\<forall>c\<in>set fs. ativo c) \<and> map id_conta cs' = map id_conta cs \<and>
   map ativo cs' = map ativo cs"
proof (induction cs arbitrary: cs' fs)
  case Nil
  then show ?case by simp
next
  case (Cons c cs)
  obtain a b where ab: "listar_loop hoje sf cf cs = (a, b)" by (cases "listar_loop hoje sf cf cs")
  from Cons.IH[OF ab] Cons.prems ab show ?case
    by (auto simp: Let_def split: if_splits)
qed

lemma set_inserir_por_data: "set (inserir_por_data x ys) = insert x (set ys)"
  by (induction ys) auto

lemma set_ordenar_por_data: "set (ordenar_por_data xs) = set xs"
  by (induction xs) (simp_all add: ordenar_por_data_def set_inserir_por_data)

text \<open>What holds for inactive accounts: the listings and the searches return active
  accounts only; a report for a date range is the report of the store without its inactive
  accounts; and a soft deletion keeps the account, now inactive, in the list and in the
  file.\<close>

lemma listar_so_ativas:
  "(\<forall>c\<in>set (fst (listar_contas_pagar hoje st sf cf)). ativo c) \<and>
   (\<forall>c\<in>set (fst (listar_contas_receber hoje st sf cf)). ativo c)"
proof -
  obtain a b where p: "listar_loop hoje sf cf (contas_pagar st) = (a, b)"
    by (cases "listar_loop hoje sf cf (contas_pagar st)")
  obtain a' b' where r: "listar_loop hoje sf cf (contas_receber st) = (a', b')"
    by (cases "listar_loop hoje sf cf (contas_receber st)")
  from listar_loop_ativas[OF p] listar_loop_ativas[OF r] show ?thesis
    by (simp add: listar_contas_pagar_def listar_contas_receber_def p r set_ordenar_por_data)
qed

lemma buscar_so_ativas:
  "(\<forall>c\<in>set (buscar_conta_pagar st termo). ativo c) \<and>
   (\<forall>c\<in>set (buscar_conta_receber st termo). ativo c)"
  by (simp add: buscar_conta_pagar_def buscar_conta_receber_def)

lemma filtrar_periodo_ativas:
  "truthy di \<or> truthy df \<Longrightarrow>
   filtrar_periodo di df (filter ativo cs) = filtrar_periodo di df cs \<and>
   (\<forall>c\<in>set (filtrar_periodo di df cs). ativo c)"
  by (auto simp: filtrar_periodo_def no_periodo_def intro: filter_cong)

lemma relatorio_periodo_sem_inativas:
  assumes "truthy di \<or> truthy df"
  shows "relatorio_financeiro st di df =
           relatorio_financeiro
             (st\<lparr>contas_pagar := filter ativo (contas_pagar st),
                 contas_receber := filter ativo (contas_receber st)\<rparr>) di df"
proof -
  let ?st' = "st\<lparr>contas_pagar := filter ativo (contas_pagar st),
                 contas_receber := filter ativo (contas_receber st)\<rparr>"
  have p: "filtrar_periodo di df (contas_pagar ?st') = filtrar_periodo di df (contas_pagar st)"
    using filtrar_periodo_ativas[OF assms, of "contas_pagar st"] by simp
  have r: "filtrar_periodo di df (contas_receber ?st') = filtrar_periodo di df (contas_receber st)"
    using filtrar_periodo_ativas[OF assms, of "contas_receber st"] by simp
  show ?thesis
    unfolding relatorio_financeiro_def p r by (rule refl)
qed

lemma excluir_loop_retem:
  "excluir_loop cid cs = (True, cs') \<Longrightarrow>
   map id_conta cs' = map id_conta cs \<and> (\<exists>c\<in>set cs'. id_conta c = cid \<and> \<not> ativo c)"
  by (induction cs arbitrary: cs') (auto split: if_splits prod.splits)

lemma excluir_retem_conta:
  assumes "excluir_conta_pagar st cid usr = (True, st')"
  shows "map id_conta (contas_pagar st') = map id_conta (contas_pagar st) \<and>
         (\<exists>c\<in>set (contas_pagar st'). id_conta c = cid \<and> \<not> ativo c) \<and>
         arquivo_contas_pagar st' = contas_pagar st'"
proof -
  obtain b cs' where l: "excluir_loop cid (contas_pagar st) = (b, cs')"
    by (cases "excluir_loop cid (contas_pagar st)")
  with assms have "b" "st' = salvar_contas_pagar (st\<lparr>contas_pagar := cs'\<rparr>)"
    by (auto simp: excluir_conta_pagar_def split: bool.splits)
  with excluir_loop_retem[of cid "contas_pagar st" cs'] l show ?thesis
    by (simp add: salvar_contas_pagar_def)
qed


text \<open>
  C2 says that an inactive account is in no field of the report. Without a date range
  the report takes the lists as they are, and its count \<open>total\<close> is the length of the
  list: a store whose only payable and only receivable are inactive reports one account
  of each kind, while its sums are 0 and the listing and the search return nothing. With a
  date range the same store reports no account.
\<close>

theorem relatorio_financeiro_conta_inativa:
  "n_total (rel_contas_pagar (relatorio_financeiro
     (sistema_exemplo [conta_pagar_exemplo ''CP001'' ''aluguel'' 1500 ''pendente'' None False]
        [conta_receber_exemplo ''CR001'' ''venda'' 200 ''pendente'' None False])
     None None)) = 1 \<and>
   n_total (rel_contas_receber (relatorio_financeiro
     (sistema_exemplo [conta_pagar_exemplo ''CP001'' ''aluguel'' 1500 ''pendente'' None False]
        [conta_receber_exemplo ''CR001'' ''venda'' 200 ''pendente'' None False])
     None None)) = 1 \<and>
   total_pagar (rel_resumo (relatorio_financeiro
     (sistema_exemplo [conta_pagar_exemplo ''CP001'' ''aluguel'' 1500 ''pendente'' None False]
        [conta_receber_exemplo ''CR001'' ''venda'' 200 ''pendente'' None False])
     None None)) = 0 \<and>
   n_total (rel_contas_pagar (relatorio_financeiro
     (sistema_exemplo [conta_pagar_exemplo ''CP001'' ''aluguel'' 1500 ''pendente'' None False]
        [conta_receber_exemplo ''CR001'' ''venda'' 200 ''pendente'' None False])
     (Some ''2024-01-01'') None)) = 0 \<and>
   n_total (rel_contas_receber (relatorio_financeiro
     (sistema_exemplo [conta_pagar_exemplo ''CP001'' ''aluguel'' 1500 ''pendente'' None False]
        [conta_receber_exemplo ''CR001'' ''venda'' 200 ''pendente'' None False])
     (Some ''2024-01-01'') None)) = 0 \<and>
   fst (listar_contas_pagar (Date 2024 3 10)
     (sistema_exemplo [conta_pagar_exemplo ''CP001'' ''aluguel'' 1500 ''pendente'' None False]
        [conta_receber_exemplo ''CR001'' ''venda'' 200 ''pendente'' None False])
     None None) = [] \<and>
   buscar_conta_pagar
     (sistema_exemplo [conta_pagar_exemplo ''CP001'' ''aluguel'' 1500 ''pendente'' None False]
        [conta_receber_exemplo ''CR001'' ''venda'' 200 ''pendente'' None False])
     ''cp001'' = []"
  by code_simp

end
